theory Spec2Isabelle
  imports Complex_Main "HOL-Library.Product_Lexorder" "HOL-Library.Log_Nat"
begin

section \<open>Strings\<close>

text \<open>
  A Python \<open>str\<close> is a sequence of code points. It is modelled as a \<open>string\<close>, each
  \<open>char\<close> standing for one code point below 256, so that \<open>length\<close> and \<open>take\<close> count what
  Python's \<open>len\<close> and slicing count. Code points from 256 on are outside the model; of
  those only the whitespace ones would matter, to \<open>strip\<close>.
\<close>

text \<open>\<open>str.strip()\<close> without argument removes the leading and trailing code points for
  which \<open>str.isspace\<close> holds: U+0009 to U+000D, U+001C to U+0020, U+0085 and U+00A0.\<close>

definition is_space :: "char \<Rightarrow> bool" where
  "is_space c = ((of_char c :: nat) \<in> {9, 10, 11, 12, 13, 28, 29, 30, 31, 32, 133, 160})"

definition strip :: "string \<Rightarrow> string" where
  "strip s = rev (dropWhile is_space (rev (dropWhile is_space s)))"

text \<open>The character class of the regular expression in \<open>safe_filename\<close>:
  \<open>< > : " / \ | ? *\<close>, newline, carriage return and tab.\<close>

definition illegal_chars :: "char list" where
  "illegal_chars = [CHR ''<'', CHR ''>'', CHR '':'', CHR 0x22, CHR ''/'', CHR 0x5C, CHR ''|'',
     CHR ''?'', CHR ''*'', CHR 0x0A, CHR 0x0D, CHR 0x09]"

text \<open>\<open>re.sub(r'[<>:"/\\|?*\n\r\t]', "_", base)\<close>: every match is one character, and
  each is replaced by an underscore.\<close>

definition re_sub_illegal :: "string \<Rightarrow> string" where
  "re_sub_illegal s = map (\<lambda>c. if c \<in> set illegal_chars then CHR ''_'' else c) s"

text \<open>\<open>x or y\<close> on an optional string: \<open>None\<close> and the empty string are falsy.\<close>

definition truthy :: "string option \<Rightarrow> bool" where
  "truthy x = (case x of None \<Rightarrow> False | Some s \<Rightarrow> s \<noteq> [])"

definition or_str :: "string option \<Rightarrow> string \<Rightarrow> string" where
  "or_str x d = (case x of None \<Rightarrow> d | Some s \<Rightarrow> if s = [] then d else s)"

section \<open>Filename sanitization\<close>

text \<open>
  \<^verbatim>\<open>
  def safe_filename(name: Optional[str], fallback: str = "video") -> str:
      base = (name or fallback).strip()
      base = re.sub(r'[<>:"/\\|?*\n\r\t]', "_", base)
      base = base[:100] or fallback
      return f"{base}.mp4"
  \<close>
\<close>

definition safe_base :: "string option \<Rightarrow> string \<Rightarrow> string" where
  "safe_base name fallback =
     (let base = strip (or_str name fallback);
          base = re_sub_illegal base;
          base = (if take 100 base = [] then fallback else take 100 base)
      in base)"

definition safe_filename_fb :: "string option \<Rightarrow> string \<Rightarrow> string" where
  "safe_filename_fb name fallback = safe_base name fallback @ ''.mp4''"

text \<open>Every call in the program leaves \<open>fallback\<close> at its default.\<close>

definition safe_filename :: "string option \<Rightarrow> string" where
  "safe_filename name = safe_filename_fb name ''video''"

section \<open>Paths and the file system\<close>

text \<open>
  The program runs on a POSIX system, so \<open>os.path\<close> is \<open>posixpath\<close>. The file system is the
  list of the existing regular files and the list of the existing directories.
\<close>

type_synonym path = string

record filesys =
  files :: "path list"
  dirs :: "path list"

definition path_exists :: "filesys \<Rightarrow> path \<Rightarrow> bool" where
  "path_exists fs p = (p \<in> set (files fs) \<or> p \<in> set (dirs fs))"

definition isdir :: "filesys \<Rightarrow> path \<Rightarrow> bool" where
  "isdir fs p = (p \<in> set (dirs fs))"

text \<open>\<open>os.path.join(a, b)\<close> for two components.\<close>

definition path_join :: "path \<Rightarrow> path \<Rightarrow> path" where
  "path_join a b =
     (if b \<noteq> [] \<and> hd b = CHR ''/'' then b
      else if a = [] \<or> last a = CHR ''/'' then a @ b
      else a @ ''/'' @ b)"

text \<open>\<open>os.path.basename(p)\<close>: what follows the last slash.\<close>

definition basename :: "path \<Rightarrow> path" where
  "basename p = rev (takeWhile (\<lambda>c. c \<noteq> CHR ''/'') (rev p))"

text \<open>\<open>os.path.dirname(p)\<close>: what precedes the base name, without its trailing slashes
  unless it consists of slashes only.\<close>

definition dirname :: "path \<Rightarrow> path" where
  "dirname p =
     (let head = rev (dropWhile (\<lambda>c. c \<noteq> CHR ''/'') (rev p))
      in if head \<noteq> [] \<and> (\<exists>c \<in> set head. c \<noteq> CHR ''/'')
         then rev (dropWhile (\<lambda>c. c = CHR ''/'') (rev head)) else head)"

text \<open>\<open>os.path.splitext(n)[0]\<close> for a name \<open>n\<close> without slash: the name up to its last dot,
  unless only dots precede that dot (or there is no dot), where it is the whole name.\<close>

definition splitext_root :: "string \<Rightarrow> string" where
  "splitext_root n =
     (case dropWhile (\<lambda>c. c \<noteq> CHR ''.'') (rev n) of
        [] \<Rightarrow> n
      | _ # r \<Rightarrow> if (\<exists>c \<in> set r. c \<noteq> CHR ''.'') then rev r else n)"

text \<open>The entry name of \<open>p\<close> in the directory \<open>d\<close>, when \<open>p\<close> lies directly in it.\<close>

definition child_name :: "path \<Rightarrow> path \<Rightarrow> string option" where
  "child_name d p =
     (let n = drop (length d + 1) p
      in if take (length d + 1) p = d @ ''/'' \<and> n \<noteq> [] \<and> CHR ''/'' \<notin> set n
         then Some n else None)"

text \<open>\<open>os.listdir(d)\<close>; it raises (\<open>None\<close>) when \<open>d\<close> is not a directory. Python leaves the
  order of the listing open; here it is the order of the file-system lists.\<close>

definition listdir :: "filesys \<Rightarrow> path \<Rightarrow> string list option" where
  "listdir fs d =
     (if isdir fs d then Some (List.map_filter (child_name d) (files fs @ dirs fs)) else None)"

definition inside :: "path \<Rightarrow> path \<Rightarrow> bool" where
  "inside d p = (take (length d + 1) p = d @ ''/'')"

text \<open>\<open>shutil.rmtree(d, ignore_errors=True)\<close>: the directory and all it holds are gone.
  Nothing lies inside a path that is not a directory, and a regular file \<open>d\<close> stays (the
  error is ignored).\<close>

definition rmtree :: "path \<Rightarrow> filesys \<Rightarrow> filesys" where
  "rmtree d fs =
     fs\<lparr>files := filter (\<lambda>p. \<not> inside d p) (files fs),
        dirs := filter (\<lambda>p. p \<noteq> d \<and> \<not> inside d p) (dirs fs)\<rparr>"

text \<open>\<open>os.remove(p)\<close> deletes a regular file and raises (\<open>None\<close>) on anything else.\<close>

definition os_remove :: "path \<Rightarrow> filesys \<Rightarrow> filesys option" where
  "os_remove p fs =
     (if p \<in> set (files fs) then Some (fs\<lparr>files := filter (\<lambda>q. q \<noteq> p) (files fs)\<rparr>) else None)"

text \<open>\<open>tempfile.mkdtemp\<close> creates the directory whose name it returns.\<close>

definition mkdtemp :: "path \<Rightarrow> filesys \<Rightarrow> filesys" where
  "mkdtemp d fs = fs\<lparr>dirs := dirs fs @ [d]\<rparr>"

text \<open>\<open>name.lower().endswith(".mp4")\<close>: the last four characters, lowered.\<close>

definition lower_char :: "char \<Rightarrow> char" where
  "lower_char c =
     (let n = (of_char c :: nat)
      in if (65 \<le> n \<and> n \<le> 90) \<or> (192 \<le> n \<and> n \<le> 222 \<and> n \<noteq> 215) then char_of (n + 32) else c)"

definition ends_mp4 :: "string \<Rightarrow> bool" where
  "ends_mp4 name =
     (4 \<le> length name \<and> map lower_char (drop (length name - 4) name) = ''.mp4'')"

section \<open>The extractor's data\<close>

text \<open>
  Numbers of the extractor (heights, frame rates, bitrates, durations) are Python ints and
  floats, which compare by their exact values: they are rationals here, and the program
  does no arithmetic on them. NaN is outside the model. A key that is absent and a key whose value is \<open>None\<close> both read as \<open>None\<close> through
  \<open>dict.get\<close>; they are told apart only where the source does (the \<open>ext\<close> of the result).
\<close>

record format_desc =
  fmt_ext :: "string option"
  fmt_vcodec :: "string option"
  fmt_height :: "rat option"
  fmt_fps :: "rat option"
  fmt_tbr :: "rat option"
  fmt_url :: "string option"

text \<open>One item of the extraction result. For \<open>v_ext\<close>, \<open>None\<close> is the absent key and
  \<open>Some None\<close> the key present with the value \<open>None\<close>.\<close>

record video_info =
  v_title :: "string option"
  v_id :: "string option"
  v_ext :: "string option option"
  v_width :: "rat option"
  v_height :: "rat option"
  v_duration :: "rat option"
  v_requested_formats :: "format_desc list option"
  v_url :: "string option"
  v_formats :: "format_desc list option"

text \<open>The result of \<open>ydl.extract_info(url, download=False)\<close>: its own keys, and its
  \<open>entries\<close> when it is a collection.\<close>

record extraction =
  x_entries :: "video_info list option"
  x_info :: video_info

record metadata =
  m_title :: "string option"
  m_id :: "string option"
  m_ext :: "string option"
  m_width :: "rat option"
  m_height :: "rat option"
  m_duration :: "rat option"
  m_direct_url :: "string option"

datatype json = JNull | JStr string | JNum rat

definition jstr :: "string option \<Rightarrow> json" where
  "jstr x = (case x of None \<Rightarrow> JNull | Some s \<Rightarrow> JStr s)"

definition jnum :: "rat option \<Rightarrow> json" where
  "jnum x = (case x of None \<Rightarrow> JNull | Some n \<Rightarrow> JNum n)"

text \<open>The body that \<open>JSONResponse\<close> sends for the dictionary \<open>extract_info\<close> returns.\<close>

definition json_body :: "metadata \<Rightarrow> (string \<times> json) list" where
  "json_body m =
     [(''title'', jstr (m_title m)), (''id'', jstr (m_id m)), (''ext'', jstr (m_ext m)),
      (''width'', jnum (m_width m)), (''height'', jnum (m_height m)),
      (''duration'', jnum (m_duration m)), (''direct_url'', jstr (m_direct_url m))]"

section \<open>Rendition selection\<close>

text \<open>\<open>x or 0\<close> on an optional number.\<close>

definition or0 :: "rat option \<Rightarrow> rat" where
  "or0 x = (case x of None \<Rightarrow> 0 | Some n \<Rightarrow> if n = 0 then 0 else n)"

text \<open>\<open>needle in haystack\<close> on strings.\<close>

fun str_contains :: "string \<Rightarrow> string \<Rightarrow> bool" where
  "str_contains n [] = (n = [])"
| "str_contains n (c # cs) = (take (length n) (c # cs) = n \<or> str_contains n cs)"

text \<open>\<open>f.get("ext") == "mp4" and "avc" in (f.get("vcodec") or "")\<close>\<close>

definition is_pref :: "format_desc \<Rightarrow> bool" where
  "is_pref f = (fmt_ext f = Some ''mp4'' \<and> str_contains ''avc'' (or_str (fmt_vcodec f) []))"

text \<open>\<open>lambda f: (f.get("height") or 0, f.get("fps") or 0, f.get("tbr") or 0)\<close>; Python
  compares tuples lexicographically.\<close>

definition sort_tuple :: "format_desc \<Rightarrow> rat \<times> rat \<times> rat" where
  "sort_tuple f = (or0 (fmt_height f), or0 (fmt_fps f), or0 (fmt_tbr f))"

text \<open>\<open>xs.sort(key=k, reverse=True)\<close>. The sort is stable also when reversed: CPython
  reverses the list, sorts it stably in ascending order and reverses the result.\<close>

definition sort_reverse :: "('a \<Rightarrow> 'k::linorder) \<Rightarrow> 'a list \<Rightarrow> 'a list" where
  "sort_reverse k xs = rev (sort_key k (rev xs))"

text \<open>Lines 100 to 109 of \<open>extract_info\<close>, entered with a non-empty \<open>formats\<close> list and the
  value \<open>direct\<close> has so far.
  \<^verbatim>\<open>
  fmts = info["formats"]
  pref = [f for f in fmts if f.get("ext") == "mp4" and "avc" in (f.get("vcodec") or "")]
  if pref:
      pref.sort(key=lambda f:(...), reverse=True)
      direct = pref[0].get("url")
  else:
      fmts = [f for f in fmts if f.get("url")]
      if fmts:
          fmts.sort(key=lambda f:(...), reverse=True)
          direct = fmts[0]["url"]
  \<close>\<close>

definition select_format :: "format_desc list \<Rightarrow> string option \<Rightarrow> string option" where
  "select_format fmts direct =
     (let pref = filter is_pref fmts
      in if pref \<noteq> [] then fmt_url (hd (sort_reverse sort_tuple pref))
         else (let fmts = filter (\<lambda>f. truthy (fmt_url f)) fmts
               in if fmts \<noteq> [] then fmt_url (hd (sort_reverse sort_tuple fmts))
                  else direct))"

text \<open>Lines 95 to 97: \<open>direct\<close> after the look at \<open>requested_formats\<close>.
  \<^verbatim>\<open>
  direct = None
  if info.get("requested_formats"):
      v = info["requested_formats"][0]; direct = v.get("url")
  \<close>\<close>

definition requested_url :: "video_info \<Rightarrow> string option" where
  "requested_url info =
     (case v_requested_formats info of Some (v # _) \<Rightarrow> fmt_url v | _ \<Rightarrow> None)"

text \<open>Lines 95 to 109.
  \<^verbatim>\<open>
  if not direct and info.get("url"): direct = info["url"]
  if not direct and info.get("formats"):
      (lines 100 to 109)
  \<close>\<close>

definition select_direct :: "video_info \<Rightarrow> string option" where
  "select_direct info =
     (let direct = requested_url info;
          direct = (if \<not> truthy direct \<and> truthy (v_url info) then v_url info else direct);
          direct = (case v_formats info of
                      Some (f # fs) \<Rightarrow>
                        if \<not> truthy direct then select_format (f # fs) direct else direct
                    | _ \<Rightarrow> direct)
      in direct)"

text \<open>Lines 93 and 94: the first entry of a collection that has entries.\<close>

definition first_entry :: "extraction \<Rightarrow> video_info" where
  "first_entry r = (case x_entries r of Some (e # _) \<Rightarrow> e | _ \<Rightarrow> x_info r)"

text \<open>Lines 93 to 118: the dictionary built from the extractor's result.\<close>

definition resolve :: "extraction \<Rightarrow> metadata" where
  "resolve r =
     (let info = first_entry r
      in \<lparr>m_title = v_title info,
          m_id = v_id info,
          m_ext = (case v_ext info of None \<Rightarrow> Some ''mp4'' | Some e \<Rightarrow> e),
          m_width = v_width info,
          m_height = v_height info,
          m_duration = v_duration info,
          m_direct_url = select_direct info\<rparr>)"

section \<open>The extraction library\<close>

text \<open>The option dictionaries handed to \<open>YoutubeDL\<close>; \<open>None\<close> is an absent key.\<close>

record ydl_opts =
  o_quiet :: "bool option"
  o_no_warnings :: "bool option"
  o_skip_download :: "bool option"
  o_format_sort :: "string list option"
  o_format :: "string option"
  o_prefer_free_formats :: "bool option"
  o_outtmpl :: "string option"
  o_merge_output_format :: "string option"

definition YDL_BASE :: ydl_opts where
  "YDL_BASE =
     \<lparr>o_quiet = Some True, o_no_warnings = Some True, o_skip_download = Some True,
      o_format_sort = Some [''codec:avc'', ''res'', ''fps'', ''br''],
      o_format = Some ''bv*+ba/b'', o_prefer_free_formats = Some False,
      o_outtmpl = None, o_merge_output_format = None\<rparr>"

text \<open>What \<open>ydl.extract_info(url, download=True)\<close> returns, as far as the program reads
  it: the \<open>filepath\<close> of each of its \<open>requested_downloads\<close>.\<close>

record download_info =
  requested_downloads :: "string option list option"

datatype error = ExtractorError string | HTTPException nat string

text \<open>
  The library is a parameter of the model. In metadata mode it returns the extraction
  result or raises; in download mode it also changes the file system, whether it raises or
  not.
\<close>

record ydl =
  ydl_meta :: "ydl_opts \<Rightarrow> string \<Rightarrow> error + extraction"
  ydl_download :: "ydl_opts \<Rightarrow> string \<Rightarrow> filesys \<Rightarrow> (error + download_info) \<times> filesys"

section \<open>The state of the server\<close>

record cache_row =
  row_val :: metadata
  row_exp :: rat

text \<open>The effects of a request, in the order they happen.\<close>

datatype event =
    CacheRead string
  | CachePop string
  | CacheWrite string
  | Extract ydl_opts string bool
  | MkDtemp path
  | RmTree path
  | Remove path

record state =
  cache :: "string \<rightharpoonup> cache_row"
  fsys :: filesys
  trace :: "event list"

definition emit :: "event \<Rightarrow> state \<Rightarrow> state" where
  "emit e s = s\<lparr>trace := trace s @ [e]\<rparr>"

section \<open>Float addition\<close>

text \<open>
  \<open>time.time()\<close> returns a Python float, an IEEE 754 double, and \<open>+\<close> on floats is the
  exact sum rounded to the nearest double, ties going to the even significand. A finite
  double is given here by its exact rational value. Sums beyond the range of the doubles
  (which give infinity) are outside the model; clock readings are far below it.
\<close>

text \<open>The integer \<open>k\<close> with \<open>2 ^ k \<le> x < 2 ^ (k + 1)\<close>, for a positive \<open>x\<close>.\<close>

definition ilog2 :: "rat \<Rightarrow> int" where
  "ilog2 x =
     (let (a, b) = quotient_of x; k = bitlen a - bitlen b
      in if 2 powi k \<le> x then k else k - 1)"

definition round_half_even :: "rat \<Rightarrow> int" where
  "round_half_even y =
     (let f = \<lfloor>y\<rfloor>; d = y - of_int f
      in if d < 1 / 2 then f else if 1 / 2 < d then f + 1 else if even f then f else f + 1)"

text \<open>The double nearest to \<open>x\<close>: a significand of 53 bits, and no exponent below that of
  the subnormal numbers.\<close>

definition round_double :: "rat \<Rightarrow> rat" where
  "round_double x =
     (if x = 0 then 0
      else (let e = max (ilog2 \<bar>x\<bar> - 52) (- 1074)
            in of_int (round_half_even (x / 2 powi e)) * 2 powi e))"

definition float_add :: "rat \<Rightarrow> rat \<Rightarrow> rat" where
  "float_add x y = round_double (x + y)"

section \<open>The cache\<close>

definition TTL_SECONDS :: rat where
  "TTL_SECONDS = 600"

text \<open>
  \<^verbatim>\<open>
  def cache_get(url):
      row = _CACHE.get(url)
      if not row: return None
      if time.time() > row["exp"]: _CACHE.pop(url, None); return None
      return row["val"]
  \<close>
  \<open>now\<close> is what \<open>time.time()\<close> returns. A row is a dictionary of two keys, so it is truthy.
  The comparison of two floats is that of their values.
\<close>

definition cache_get :: "rat \<Rightarrow> string \<Rightarrow> state \<Rightarrow> metadata option \<times> state" where
  "cache_get now url s =
     (let s = emit (CacheRead url) s
      in case cache s url of
           None \<Rightarrow> (None, s)
         | Some row \<Rightarrow>
             if now > row_exp row
             then (None, emit (CachePop url) (s\<lparr>cache := (cache s)(url := None)\<rparr>))
             else (Some (row_val row), s))"

text \<open>
  \<^verbatim>\<open>
  def cache_set(url, val):
      _CACHE[url] = {"val": val, "exp": time.time() + TTL_SECONDS}
  \<close>
  The sum is a float addition: \<open>TTL_SECONDS\<close> is the int 600, converted to the float 600.
\<close>

definition cache_set :: "rat \<Rightarrow> string \<Rightarrow> metadata \<Rightarrow> state \<Rightarrow> state" where
  "cache_set now url v s =
     emit (CacheWrite url) (s\<lparr>cache := (cache s)(url \<mapsto> \<lparr>row_val = v, row_exp = float_add now TTL_SECONDS\<rparr>)\<rparr>)"

section \<open>Metadata resolution\<close>

text \<open>
  \<^verbatim>\<open>
  def extract_info(tiktok_url):
      with YoutubeDL({**YDL_BASE, "skip_download": True}) as ydl:
          info = ydl.extract_info(tiktok_url, download=False)
      ...
  \<close>
  An exception of the library leaves \<open>extract_info\<close> uncaught.
\<close>

definition extract_info :: "ydl \<Rightarrow> string \<Rightarrow> state \<Rightarrow> (error + metadata) \<times> state" where
  "extract_info lib tiktok_url s =
     (let opts = YDL_BASE\<lparr>o_skip_download := Some True\<rparr>;
          s = emit (Extract opts tiktok_url False) s
      in case ydl_meta lib opts tiktok_url of
           Inl e \<Rightarrow> (Inl e, s)
         | Inr info \<Rightarrow> (Inr (resolve info), s))"

datatype response =
    JSONResponse "(string \<times> json) list"
  | FileResponse path string string

text \<open>
  \<^verbatim>\<open>
  def api_tiktok(url):
      cached = cache_get(url)
      if cached: return JSONResponse(cached)
      data = extract_info(url)
      cache_set(url, data)
      return JSONResponse(data)
  \<close>
  \<open>t_get\<close> and \<open>t_set\<close> are the two readings of the clock. A cached value is a dictionary
  of seven keys, so it is truthy.
\<close>

definition api_tiktok ::
  "ydl \<Rightarrow> rat \<Rightarrow> rat \<Rightarrow> string \<Rightarrow> state \<Rightarrow> (error + response) \<times> state" where
  "api_tiktok lib t_get t_set url s =
     (case cache_get t_get url s of
        (Some cached, s) \<Rightarrow> (Inr (JSONResponse (json_body cached)), s)
      | (None, s) \<Rightarrow>
          (case extract_info lib url s of
             (Inl e, s) \<Rightarrow> (Inl e, s)
           | (Inr data, s) \<Rightarrow>
               (Inr (JSONResponse (json_body data)), cache_set t_set url data s)))"

section \<open>The download materializer\<close>

text \<open>Strategy A: best video and best audio, merged into an mp4 container.\<close>

definition opts1 :: "string \<Rightarrow> ydl_opts" where
  "opts1 outtmpl =
     \<lparr>o_quiet = Some True, o_no_warnings = Some True, o_skip_download = None,
      o_format_sort = Some [''codec:avc'', ''res'', ''fps'', ''br''],
      o_format = Some ''bv*+ba/b'', o_prefer_free_formats = None,
      o_outtmpl = Some outtmpl, o_merge_output_format = Some ''mp4''\<rparr>"

text \<open>Strategy B: one stream that is already muxed.\<close>

definition opts2 :: "string \<Rightarrow> ydl_opts" where
  "opts2 outtmpl =
     \<lparr>o_quiet = Some True, o_no_warnings = Some True, o_skip_download = None,
      o_format_sort = None,
      o_format = Some ''best[ext=mp4][vcodec*=avc]/best[ext=mp4]/best'',
      o_prefer_free_formats = None,
      o_outtmpl = Some outtmpl, o_merge_output_format = None\<rparr>"

text \<open>
  \<^verbatim>\<open>
  for name in os.listdir(tmpdir):
      if name.lower().endswith(".mp4"):
          return os.path.join(tmpdir, name)
  return None
  \<close>
  inside the \<open>try\<close> of \<open>try_download\<close>, so that a failing \<open>os.listdir\<close> gives \<open>None\<close> too.
\<close>

definition scan_tmpdir :: "filesys \<Rightarrow> path \<Rightarrow> path option" where
  "scan_tmpdir fs tmpdir =
     (case listdir fs tmpdir of
        None \<Rightarrow> None
      | Some names \<Rightarrow>
          (case filter ends_mp4 names of
             [] \<Rightarrow> None
           | name # _ \<Rightarrow> Some (path_join tmpdir name)))"

text \<open>
  \<^verbatim>\<open>
  def try_download(opts):
      try:
          with YoutubeDL(opts) as ydl:
              info = ydl.extract_info(url, download=True)
              if "requested_downloads" in info and info["requested_downloads"]:
                  p = info["requested_downloads"][0].get("filepath")
                  if p and os.path.exists(p): return p
              (the scan of tmpdir)
      except Exception:
          return None
  \<close>
\<close>

definition try_download ::
  "ydl \<Rightarrow> string \<Rightarrow> path \<Rightarrow> ydl_opts \<Rightarrow> state \<Rightarrow> path option \<times> state" where
  "try_download lib url tmpdir opts s =
     (let s = emit (Extract opts url True) s;
          (r, fs) = ydl_download lib opts url (fsys s);
          s = s\<lparr>fsys := fs\<rparr>
      in case r of
           Inl e \<Rightarrow> (None, s)
         | Inr info \<Rightarrow>
             (case requested_downloads info of
                Some (Some p # _) \<Rightarrow>
                  if p \<noteq> [] \<and> path_exists fs p then (Some p, s) else (scan_tmpdir fs tmpdir, s)
              | _ \<Rightarrow> (scan_tmpdir fs tmpdir, s)))"

definition download_failed :: string where
  "download_failed = ''Download failed (ffmpeg missing or unsupported format).''"

text \<open>
  \<^verbatim>\<open>
  def yt_dlp_download_to_temp(url, title_hint):
      tmpdir = tempfile.mkdtemp(prefix="ttdl_")
      outtmpl = os.path.join(tmpdir, "%(id)s.%(ext)s")
      ...
      path = try_download(opts1) or try_download(opts2)
      if not path or not os.path.exists(path):
          shutil.rmtree(tmpdir, ignore_errors=True)
          raise HTTPException(400, "Download failed (ffmpeg missing or unsupported format).")
      fname = safe_filename(title_hint or os.path.splitext(os.path.basename(path))[0])
      return path, fname
  \<close>
  \<open>tmpdir\<close> is the directory \<open>mkdtemp\<close> creates for this call.
\<close>

definition yt_dlp_download_to_temp ::
  "ydl \<Rightarrow> path \<Rightarrow> string \<Rightarrow> string option \<Rightarrow> state \<Rightarrow> (error + path \<times> string) \<times> state" where
  "yt_dlp_download_to_temp lib tmpdir url title_hint s =
     (let s = emit (MkDtemp tmpdir) (s\<lparr>fsys := mkdtemp tmpdir (fsys s)\<rparr>);
          outtmpl = path_join tmpdir ''%(id)s.%(ext)s'';
          (p1, s) = try_download lib url tmpdir (opts1 outtmpl) s;
          (path, s) = (if truthy p1 then (p1, s) else try_download lib url tmpdir (opts2 outtmpl) s);
          failed = (emit (RmTree tmpdir) (s\<lparr>fsys := rmtree tmpdir (fsys s)\<rparr>))
      in case path of
           None \<Rightarrow> (Inl (HTTPException 400 download_failed), failed)
         | Some p \<Rightarrow>
             if p = [] \<or> \<not> path_exists (fsys s) p
             then (Inl (HTTPException 400 download_failed), failed)
             else (Inr (p, safe_filename (Some (or_str title_hint (splitext_root (basename p))))), s))"

section \<open>The download endpoint\<close>

text \<open>
  \<^verbatim>\<open>
  def cleanup():
      try:
          d = os.path.dirname(path)
          if os.path.exists(path): os.remove(path)
          if os.path.isdir(d): shutil.rmtree(d, ignore_errors=True)
      except: pass
  \<close>
\<close>

definition cleanup :: "path \<Rightarrow> state \<Rightarrow> state" where
  "cleanup path s =
     (let d = dirname path;
          rest = (\<lambda>s. if isdir (fsys s) d
                      then emit (RmTree d) (s\<lparr>fsys := rmtree d (fsys s)\<rparr>) else s)
      in if path_exists (fsys s) path
         then (case os_remove path (fsys s) of
                 None \<Rightarrow> s
               | Some fs \<Rightarrow> rest (emit (Remove path) (s\<lparr>fsys := fs\<rparr>)))
         else rest s)"

text \<open>
  \<^verbatim>\<open>
  def api_tiktok_download(url):
      meta = extract_info(url)
      path, fname = yt_dlp_download_to_temp(url, meta.get("title") or meta.get("id"))
      ...
      return FileResponse(path, media_type="video/mp4", filename=fname,
                          background=BackgroundTask(cleanup))
  \<close>
\<close>

definition api_tiktok_download ::
  "ydl \<Rightarrow> path \<Rightarrow> string \<Rightarrow> state \<Rightarrow> (error + response) \<times> state" where
  "api_tiktok_download lib tmpdir url s =
     (case extract_info lib url s of
        (Inl e, s) \<Rightarrow> (Inl e, s)
      | (Inr meta, s) \<Rightarrow>
          (case yt_dlp_download_to_temp lib tmpdir url
                  (if truthy (m_title meta) then m_title meta else m_id meta) s of
             (Inl e, s) \<Rightarrow> (Inl e, s)
           | (Inr (path, fname), s) \<Rightarrow> (Inr (FileResponse path ''video/mp4'' fname), s)))"

text \<open>A whole download request: the endpoint, then the background task of its response
  once the file has been sent.\<close>

definition download_request ::
  "ydl \<Rightarrow> path \<Rightarrow> string \<Rightarrow> state \<Rightarrow> (error + response) \<times> state" where
  "download_request lib tmpdir url s =
     (case api_tiktok_download lib tmpdir url s of
        (Inr (FileResponse path media fname), s) \<Rightarrow>
          (Inr (FileResponse path media fname), cleanup path s)
      | (r, s) \<Rightarrow> (r, s))"

section \<open>Kinds of events\<close>

fun is_cache_event :: "event \<Rightarrow> bool" where
  "is_cache_event (CacheRead _) = True"
| "is_cache_event (CachePop _) = True"
| "is_cache_event (CacheWrite _) = True"
| "is_cache_event _ = False"

text \<open>The calls of the library in download mode.\<close>

fun is_download_call :: "event \<Rightarrow> bool" where
  "is_download_call (Extract _ _ download) = download"
| "is_download_call _ = False"

section \<open>Example inputs\<close>

definition fmt_480 :: format_desc where
  "fmt_480 = \<lparr>fmt_ext = Some ''mp4'', fmt_vcodec = Some ''avc1.64001f'', fmt_height = Some 480,
     fmt_fps = Some 30, fmt_tbr = Some 800, fmt_url = Some ''https://cdn.example/480.mp4''\<rparr>"

definition fmt_720 :: format_desc where
  "fmt_720 = \<lparr>fmt_ext = Some ''mp4'', fmt_vcodec = Some ''avc1.64001f'', fmt_height = Some 720,
     fmt_fps = Some 30, fmt_tbr = Some 1500, fmt_url = Some ''https://cdn.example/720.mp4''\<rparr>"

definition fmt_1080 :: format_desc where
  "fmt_1080 = \<lparr>fmt_ext = Some ''mp4'', fmt_vcodec = Some ''avc1.640028'', fmt_height = Some 1080,
     fmt_fps = Some 30, fmt_tbr = Some 2500, fmt_url = Some ''https://cdn.example/1080.mp4''\<rparr>"

definition fmt_hevc :: format_desc where
  "fmt_hevc = \<lparr>fmt_ext = Some ''mp4'', fmt_vcodec = Some ''hvc1'', fmt_height = Some 2160,
     fmt_fps = Some 60, fmt_tbr = None, fmt_url = Some ''https://cdn.example/2160.mp4''\<rparr>"

definition fmt_webm :: format_desc where
  "fmt_webm = \<lparr>fmt_ext = Some ''webm'', fmt_vcodec = Some ''vp9'', fmt_height = Some 720,
     fmt_fps = None, fmt_tbr = None, fmt_url = Some ''https://cdn.example/720.webm''\<rparr>"

definition fmt_no_url :: format_desc where
  "fmt_no_url = \<lparr>fmt_ext = Some ''mp4'', fmt_vcodec = Some ''avc1.640033'', fmt_height = Some 1440,
     fmt_fps = Some 30, fmt_tbr = Some 4000, fmt_url = None\<rparr>"

definition fmt_empty_url :: format_desc where
  "fmt_empty_url = \<lparr>fmt_ext = Some ''mp4'', fmt_vcodec = Some ''avc1.640033'',
     fmt_height = Some 1440, fmt_fps = Some 30, fmt_tbr = Some 4000, fmt_url = Some []\<rparr>"

definition bare_video :: video_info where
  "bare_video = \<lparr>v_title = None, v_id = None, v_ext = None, v_width = None, v_height = None,
     v_duration = None, v_requested_formats = None, v_url = None, v_formats = None\<rparr>"

definition video_requested :: video_info where
  "video_requested = bare_video\<lparr>v_requested_formats := Some [fmt_720, fmt_480],
     v_url := Some ''https://cdn.example/top.mp4''\<rparr>"

definition video_requested_no_url :: video_info where
  "video_requested_no_url = bare_video\<lparr>v_requested_formats := Some [fmt_no_url],
     v_url := Some ''https://cdn.example/top.mp4''\<rparr>"

definition video_top_url :: video_info where
  "video_top_url = bare_video\<lparr>v_url := Some ''https://cdn.example/top.mp4'',
     v_formats := Some [fmt_480]\<rparr>"

definition video_pref :: video_info where
  "video_pref = bare_video\<lparr>v_formats := Some [fmt_480, fmt_hevc, fmt_1080, fmt_720]\<rparr>"

definition video_fallback :: video_info where
  "video_fallback = bare_video\<lparr>v_formats := Some [fmt_webm, fmt_hevc]\<rparr>"

definition video_pref_no_url :: video_info where
  "video_pref_no_url = bare_video\<lparr>v_formats := Some [fmt_480, fmt_no_url, fmt_hevc]\<rparr>"

definition video_pref_empty_url :: video_info where
  "video_pref_empty_url = bare_video\<lparr>v_formats := Some [fmt_empty_url]\<rparr>"

definition video_null_ext :: video_info where
  "video_null_ext = bare_video\<lparr>v_title := Some ''clip'', v_id := Some ''7'', v_ext := Some None\<rparr>"

definition sample_url :: string where
  "sample_url = ''https://www.tiktok.com/@user/video/7''"

definition sample_tmpdir :: path where
  "sample_tmpdir = ''/tmp/ttdl_k3x9''"

definition sample_video :: video_info where
  "sample_video = bare_video\<lparr>v_title := Some ''My: Video? <Test>'', v_id := Some ''7'',
     v_ext := Some (Some ''mp4''), v_width := Some 1080, v_height := Some 1920,
     v_duration := Some 15, v_formats := Some [fmt_480, fmt_hevc, fmt_1080, fmt_720]\<rparr>"

definition sample_extraction :: extraction where
  "sample_extraction = \<lparr>x_entries = None, x_info = sample_video\<rparr>"

definition bare_extraction :: extraction where
  "bare_extraction = \<lparr>x_entries = None, x_info = bare_video\<rparr>"

definition extraction_null_ext :: extraction where
  "extraction_null_ext = \<lparr>x_entries = Some [video_null_ext], x_info = bare_video\<rparr>"

text \<open>A library whose every call raises.\<close>

definition lib_down :: ydl where
  "lib_down =
     \<lparr>ydl_meta = (\<lambda>opts url. Inl (ExtractorError ''unavailable'')),
      ydl_download = (\<lambda>opts url fs. (Inl (ExtractorError ''unavailable''), fs))\<rparr>"

text \<open>A library on a machine without ffmpeg: the merge of strategy A raises and leaves the
  video stream behind; a download without merge writes the file and reports it.\<close>

definition lib_no_ffmpeg :: ydl where
  "lib_no_ffmpeg =
     \<lparr>ydl_meta = (\<lambda>opts url. Inr sample_extraction),
      ydl_download = (\<lambda>opts url fs.
        if o_merge_output_format opts = Some ''mp4''
        then (Inl (ExtractorError ''ffmpeg is not installed''),
              fs\<lparr>files := files fs @ [''/tmp/ttdl_k3x9/7.f1.webm'']\<rparr>)
        else (Inr \<lparr>requested_downloads = Some [Some ''/tmp/ttdl_k3x9/7.mp4'']\<rparr>,
              fs\<lparr>files := files fs @ [''/tmp/ttdl_k3x9/7.mp4'']\<rparr>))\<rparr>"

text \<open>A library that resolves the metadata, and whose downloads all raise after they have
  written a part of the file.\<close>

definition lib_broken :: ydl where
  "lib_broken =
     \<lparr>ydl_meta = (\<lambda>opts url. Inr sample_extraction),
      ydl_download = (\<lambda>opts url fs.
        (Inl (ExtractorError ''unsupported format''),
         fs\<lparr>files := files fs @ [''/tmp/ttdl_k3x9/7.mp4.part'']\<rparr>))\<rparr>"

definition empty_state :: state where
  "empty_state = \<lparr>cache = Map.empty, fsys = \<lparr>files = [], dirs = [''/tmp'']\<rparr>, trace = []\<rparr>"

definition sample_meta :: metadata where
  "sample_meta = resolve sample_extraction"

text \<open>A state whose cache holds a row for \<open>sample_url\<close> that expires at time 1000.\<close>

definition cached_state :: state where
  "cached_state =
     empty_state\<lparr>cache := [sample_url \<mapsto> \<lparr>row_val = sample_meta, row_exp = 1000\<rparr>]\<rparr>"

text \<open>The doubles nearest to 0.1 and to 600.1, which are what the float literals \<open>0.1\<close> and
  \<open>600.1\<close> denote.\<close>

definition double_0_1 :: rat where
  "double_0_1 = 3602879701896397 / 36028797018963968"

definition double_600_1 :: rat where
  "double_600_1 = 5278535422627021 / 8796093022208"

section \<open>Facts about sorting and substrings\<close>

lemma last_filter_holds: "xs \<noteq> [] \<Longrightarrow> P (last xs) \<Longrightarrow> last (filter P xs) = last xs"
proof (induction xs)
  case Nil
  then show ?case by simp
next
  case (Cons a xs)
  show ?case
  proof (cases "xs = []")
    case True
    with Cons.prems show ?thesis by simp
  next
    case False
    with Cons.prems have "P (last xs)" by simp
    moreover have "last xs \<in> set xs" using False by simp
    ultimately have "filter P xs \<noteq> []" by (auto simp: filter_empty_conv)
    then show ?thesis using Cons.IH False \<open>P (last xs)\<close> by simp
  qed
qed

lemma sorted_last_max: "sorted (map k xs) \<Longrightarrow> x \<in> set xs \<Longrightarrow> k x \<le> k (last xs)"
  by (induction xs) (auto split: if_splits)

lemma hd_sort_reverse:
  fixes k :: "'a \<Rightarrow> 'k::linorder"
  assumes xs: "xs = ys @ m # zs"
    and before: "\<forall>y \<in> set ys. k y < k m"
    and after: "\<forall>z \<in> set zs. k z \<le> k m"
  shows "hd (sort_reverse k xs) = m"
proof -
  let ?l = "sort_key k (rev xs)"
  have ne: "?l \<noteq> []" using xs by (metis Nil_is_rev_conv length_0_conv length_sort snoc_eq_iff_butlast list.discI append_is_Nil_conv)
  have m_in: "m \<in> set ?l" using xs by simp
  have le: "k m \<le> k (last ?l)"
    using sorted_last_max [of k ?l m] m_in by simp
  have "last ?l \<in> set xs" using last_in_set [OF ne] by simp
  then have "k (last ?l) \<le> k m" using xs before after by auto
  with le have key: "k (last ?l) = k m" by simp
  have "last ?l = last (filter (\<lambda>x. k x = k m) ?l)"
    using last_filter_holds [OF ne, of "\<lambda>x. k x = k m"] key by simp
  also have "filter (\<lambda>x. k x = k m) ?l = filter (\<lambda>x. k x = k m) (rev xs)"
    by (rule sort_key_stable)
  also have "\<dots> = filter (\<lambda>x. k x = k m) (rev zs) @ [m]"
    using xs before by (auto simp: filter_empty_conv)
  finally have "last ?l = m" by simp
  then show ?thesis by (simp add: sort_reverse_def hd_rev)
qed

lemma first_max_exists:
  fixes k :: "'a \<Rightarrow> 'k::linorder"
  assumes "xs \<noteq> []"
  shows "\<exists>ys m zs. xs = ys @ m # zs \<and> (\<forall>y \<in> set ys. k y < k m) \<and> (\<forall>z \<in> set zs. k z \<le> k m)"
  using assms
proof (induction xs rule: rev_nonempty_induct)
  case (single x)
  show ?case by (rule exI [of _ "[]"], rule exI [of _ x], rule exI [of _ "[]"]) simp
next
  case (snoc x xs)
  then obtain ys m zs where d: "xs = ys @ m # zs" "\<forall>y \<in> set ys. k y < k m" "\<forall>z \<in> set zs. k z \<le> k m"
    by blast
  show ?case
  proof (cases "k x \<le> k m")
    case True
    show ?thesis
      by (rule exI [of _ ys], rule exI [of _ m], rule exI [of _ "zs @ [x]"]) (use d True in auto)
  next
    case False
    show ?thesis
      by (rule exI [of _ xs], rule exI [of _ x], rule exI [of _ "[]"]) (use d False in \<open>auto simp: not_le; force?\<close>)
  qed
qed

lemma str_contains_iff: "str_contains n h \<longleftrightarrow> (\<exists>p s. h = p @ n @ s)"
proof (induction h)
  case Nil
  show ?case by auto
next
  case (Cons c cs)
  have pre: "take (length n) (c # cs) = n \<longleftrightarrow> (\<exists>s. c # cs = n @ s)"
    by (metis append_eq_conv_conj append_take_drop_id)
  show ?case
  proof
    assume "str_contains n (c # cs)"
    then consider "take (length n) (c # cs) = n" | "str_contains n cs" by auto
    then show "\<exists>p s. c # cs = p @ n @ s"
    proof cases
      case 1
      then obtain s where "c # cs = n @ s" using pre by blast
      then have "c # cs = [] @ n @ s" by simp
      then show ?thesis by blast
    next
      case 2
      then obtain p s where "cs = p @ n @ s" using Cons.IH by blast
      then have "c # cs = (c # p) @ n @ s" by simp
      then show ?thesis by blast
    qed
  next
    assume "\<exists>p s. c # cs = p @ n @ s"
    then obtain p s where e: "c # cs = p @ n @ s" by blast
    show "str_contains n (c # cs)"
    proof (cases p)
      case Nil
      with e pre have "take (length n) (c # cs) = n" by auto
      then show ?thesis unfolding str_contains.simps by blast
    next
      case (Cons a p')
      with e have "cs = p' @ n @ s" by simp
      then show ?thesis using Cons.IH by auto
    qed
  qed
qed

section \<open>Filename sanitization: properties\<close>

lemma underscore_legal: "CHR ''_'' \<notin> set illegal_chars"
  by (simp add: illegal_chars_def)

lemma re_sub_illegal_clean: "set (re_sub_illegal s) \<inter> set illegal_chars = {}"
  using underscore_legal by (auto simp: re_sub_illegal_def)

lemma video_clean: "set ''video'' \<inter> set illegal_chars = {}"
  by (simp add: illegal_chars_def)

lemma take_re_sub: "take n (re_sub_illegal s) = re_sub_illegal (take n s)"
  by (simp add: re_sub_illegal_def take_map)

lemma re_sub_illegal_Nil: "re_sub_illegal s = [] \<longleftrightarrow> s = []"
  by (simp add: re_sub_illegal_def)

lemmas safe_filename_defs =
  safe_filename_def safe_filename_fb_def safe_base_def strip_def or_str_def is_space_def
  re_sub_illegal_def illegal_chars_def

section \<open>Float addition: properties\<close>

lemma ilog2_le:
  assumes "0 < y"
  shows "2 powi ilog2 y \<le> y"
proof -
  obtain a b where q: "quotient_of y = (a, b)" by (cases "quotient_of y")
  have b: "0 < b" using quotient_of_denom_pos [OF q] .
  have y: "y = of_int a / of_int b" using quotient_of_div [OF q] .
  have a: "0 < a" using assms b y by (simp add: zero_less_divide_iff)
  let ?k = "bitlen a - bitlen b"
  have il: "ilog2 y = (if 2 powi ?k \<le> y then ?k else ?k - 1)"
    by (simp add: ilog2_def q Let_def)
  have ba: "1 \<le> bitlen a" using a by (simp add: bitlen_alt_def)
  have "(2::int) ^ nat (bitlen a - 1) \<le> a" using bitlen_bounds [OF a] by simp
  then have "(of_int ((2::int) ^ nat (bitlen a - 1)) :: rat) \<le> of_int a"
    by (simp only: of_int_le_iff)
  then have la: "(2::rat) powi (bitlen a - 1) \<le> of_int a"
    using ba by (simp add: power_int_def)
  have "b < (2::int) ^ nat (bitlen b)" using bitlen_bounds [OF b] by simp
  then have "(of_int b :: rat) < of_int ((2::int) ^ nat (bitlen b))"
    by (simp only: of_int_less_iff)
  then have lb: "of_int b < (2::rat) powi (bitlen b)"
    using bitlen_nonneg [of b] by (simp add: power_int_def)
  have "(2::rat) powi (?k - 1) = 2 powi ((bitlen a - 1) - bitlen b)" by (simp add: algebra_simps)
  also have "\<dots> = 2 powi (bitlen a - 1) / 2 powi (bitlen b)" by (simp add: power_int_diff)
  also have "\<dots> \<le> of_int a / 2 powi (bitlen b)"
    using la by (intro divide_right_mono) auto
  also have "\<dots> \<le> of_int a / of_int b"
    using a b lb by (intro divide_left_mono) auto
  finally have "(2::rat) powi (?k - 1) \<le> y" using y by simp
  then show ?thesis using il by auto
qed

lemma ilog2_less:
  assumes "0 < y"
  shows "y < 2 powi (ilog2 y + 1)"
proof -
  obtain a b where q: "quotient_of y = (a, b)" by (cases "quotient_of y")
  have b: "0 < b" using quotient_of_denom_pos [OF q] .
  have y: "y = of_int a / of_int b" using quotient_of_div [OF q] .
  have a: "0 < a" using assms b y by (simp add: zero_less_divide_iff)
  let ?k = "bitlen a - bitlen b"
  have il: "ilog2 y = (if 2 powi ?k \<le> y then ?k else ?k - 1)"
    by (simp add: ilog2_def q Let_def)
  have bb: "1 \<le> bitlen b" using b by (simp add: bitlen_alt_def)
  have "a < (2::int) ^ nat (bitlen a)" using bitlen_bounds [OF a] by simp
  then have "(of_int a :: rat) < of_int ((2::int) ^ nat (bitlen a))"
    by (simp only: of_int_less_iff)
  then have la: "of_int a < (2::rat) powi (bitlen a)"
    using bitlen_nonneg [of a] by (simp add: power_int_def)
  have "(2::int) ^ nat (bitlen b - 1) \<le> b" using bitlen_bounds [OF b] by simp
  then have "(of_int ((2::int) ^ nat (bitlen b - 1)) :: rat) \<le> of_int b"
    by (simp only: of_int_le_iff)
  then have lb: "(2::rat) powi (bitlen b - 1) \<le> of_int b"
    using bb by (simp add: power_int_def)
  have "y = of_int a / of_int b" by (rule y)
  also have "\<dots> < 2 powi (bitlen a) / of_int b"
    using la b by (intro divide_strict_right_mono) auto
  also have "\<dots> \<le> 2 powi (bitlen a) / 2 powi (bitlen b - 1)"
    using lb b by (intro divide_left_mono) (auto intro!: mult_pos_pos)
  also have "\<dots> = 2 powi (bitlen a - (bitlen b - 1))" by (simp add: power_int_diff)
  also have "\<dots> = 2 powi (?k + 1)" by (simp add: algebra_simps)
  finally have up: "y < 2 powi (?k + 1)" .
  show ?thesis
  proof (cases "2 powi ?k \<le> y")
    case True
    with il up show ?thesis by simp
  next
    case False
    with il show ?thesis by simp
  qed
qed

lemma round_half_even_of_int: "round_half_even (of_int n) = n"
  by (simp add: round_half_even_def Let_def)

text \<open>A number that is a double is its own rounding.\<close>

lemma round_double_exact:
  assumes x: "x = of_int m * 2 powi e" and m: "\<bar>m\<bar> < 2 ^ 53" and e: "- 1074 \<le> e"
  shows "round_double x = x"
proof (cases "x = 0")
  case True
  then show ?thesis by (simp add: round_double_def)
next
  case False
  let ?E = "max (ilog2 \<bar>x\<bar> - 52) (- 1074)"
  have pos: "0 < \<bar>x\<bar>" using False by simp
  have "\<bar>x\<bar> = of_int \<bar>m\<bar> * 2 powi e" using x by (simp add: abs_mult)
  also have "\<dots> < of_int (2 ^ 53) * 2 powi e"
    using m by (intro mult_strict_right_mono) (simp_all only: of_int_less_iff zero_less_power_int zero_less_numeral)
  also have "\<dots> = 2 powi (e + 53)" by (simp add: power_int_add)
  finally have "\<bar>x\<bar> < 2 powi (e + 53)" .
  with ilog2_le [OF pos] have "(2::rat) powi ilog2 \<bar>x\<bar> < 2 powi (e + 53)" by simp
  then have "ilog2 \<bar>x\<bar> < e + 53"
    by (metis linorder_not_less power_int_increasing one_le_numeral)
  with e have E: "?E \<le> e" by simp
  define n where "n = m * 2 ^ nat (e - ?E)"
  have "x / 2 powi ?E = of_int m * 2 powi (e - ?E)"
    using x by (simp add: power_int_diff)
  also have "\<dots> = of_int n" using E by (simp add: n_def power_int_def)
  finally have q: "x / 2 powi ?E = of_int n" .
  then have "round_half_even (x / 2 powi ?E) = n" by (simp add: round_half_even_of_int)
  moreover from q have "x = of_int n * 2 powi ?E" by (simp add: field_simps)
  ultimately show ?thesis using False by (simp add: round_double_def Let_def)
qed

lemma float_add_exact:
  "x + y = of_int m * 2 powi e \<Longrightarrow> \<bar>m\<bar> < 2 ^ 53 \<Longrightarrow> - 1074 \<le> e \<Longrightarrow> float_add x y = x + y"
  by (simp add: float_add_def round_double_exact)

lemma float_add_2001: "float_add 2001 600 = 2601"
  using float_add_exact [of 2001 600 2601 0] by simp

lemma float_add_0_1: "float_add double_0_1 600 = double_600_1"
  by code_simp

lemmas example_formats =
  fmt_480_def fmt_720_def fmt_1080_def fmt_hevc_def fmt_webm_def fmt_no_url_def
  fmt_empty_url_def

lemmas example_videos =
  bare_video_def video_requested_def video_requested_no_url_def video_top_url_def
  video_pref_def video_fallback_def video_pref_no_url_def video_pref_empty_url_def
  video_null_ext_def

lemmas example_states =
  sample_url_def sample_tmpdir_def sample_video_def sample_extraction_def bare_extraction_def
  extraction_null_ext_def lib_down_def lib_no_ffmpeg_def lib_broken_def empty_state_def
  sample_meta_def cached_state_def

section \<open>Rendition selection: properties\<close>

lemma select_direct_alt:
  "select_direct info =
     (let d1 = requested_url info;
          d2 = (if \<not> truthy d1 \<and> truthy (v_url info) then v_url info else d1)
      in case v_formats info of
           Some (f # fs) \<Rightarrow> if \<not> truthy d2 then select_format (f # fs) d2 else d2
         | _ \<Rightarrow> d2)"
  by (simp add: select_direct_def Let_def)

lemma select_direct_formats:
  assumes "v_formats info = Some fs" and "\<not> truthy (requested_url info)"
    and "\<not> truthy (v_url info)"
  shows "select_direct info =
           (if fs = [] then requested_url info else select_format fs (requested_url info))"
  using assms by (cases fs) (simp_all add: select_direct_alt Let_def)

lemma select_format_pref:
  assumes "filter is_pref fmts = ys @ m # zs"
    and "\<forall>y \<in> set ys. sort_tuple y < sort_tuple m"
    and "\<forall>z \<in> set zs. sort_tuple z \<le> sort_tuple m"
  shows "select_format fmts direct = fmt_url m"
  using assms hd_sort_reverse [OF assms(1) assms(2) assms(3)]
  by (simp add: select_format_def Let_def)

lemma select_format_fallback:
  assumes "filter is_pref fmts = []"
    and "filter (\<lambda>f. truthy (fmt_url f)) fmts = ys @ m # zs"
    and "\<forall>y \<in> set ys. sort_tuple y < sort_tuple m"
    and "\<forall>z \<in> set zs. sort_tuple z \<le> sort_tuple m"
  shows "select_format fmts direct = fmt_url m"
  using assms(1,2) hd_sort_reverse [OF assms(2) assms(3) assms(4)]
  by (simp add: select_format_def Let_def)

lemma select_format_none:
  assumes "filter is_pref fmts = []" and "filter (\<lambda>f. truthy (fmt_url f)) fmts = []"
  shows "select_format fmts direct = direct"
  using assms by (simp add: select_format_def Let_def)

lemma hd_sort_reverse_in_set:
  fixes k :: "'a \<Rightarrow> 'k::linorder"
  assumes "xs \<noteq> []"
  shows "hd (sort_reverse k xs) \<in> set xs"
proof -
  obtain ys m zs where d: "xs = ys @ m # zs" "\<forall>y \<in> set ys. k y < k m" "\<forall>z \<in> set zs. k z \<le> k m"
    using first_max_exists [OF assms, of k] by blast
  then have "hd (sort_reverse k xs) = m" by (rule hd_sort_reverse)
  with d(1) show ?thesis by simp
qed

lemma select_format_source:
  assumes "select_format fmts direct = Some u" and "select_format fmts direct \<noteq> direct"
  shows "\<exists>f \<in> set fmts. fmt_url f = Some u"
proof (cases "filter is_pref fmts = []")
  case False
  then have "hd (sort_reverse sort_tuple (filter is_pref fmts)) \<in> set (filter is_pref fmts)"
    by (rule hd_sort_reverse_in_set)
  moreover have "select_format fmts direct = fmt_url (hd (sort_reverse sort_tuple (filter is_pref fmts)))"
    using False by (simp add: select_format_def Let_def)
  ultimately show ?thesis using assms(1) by auto
next
  case True
  show ?thesis
  proof (cases "filter (\<lambda>f. truthy (fmt_url f)) fmts = []")
    case True
    with \<open>filter is_pref fmts = []\<close> assms show ?thesis by (simp add: select_format_none)
  next
    case False
    then have "hd (sort_reverse sort_tuple (filter (\<lambda>f. truthy (fmt_url f)) fmts))
                 \<in> set (filter (\<lambda>f. truthy (fmt_url f)) fmts)"
      by (rule hd_sort_reverse_in_set)
    moreover have "select_format fmts direct =
        fmt_url (hd (sort_reverse sort_tuple (filter (\<lambda>f. truthy (fmt_url f)) fmts)))"
      using True False by (simp add: select_format_def Let_def)
    ultimately show ?thesis using assms(1) by auto
  qed
qed

lemmas selection_eval =
  requested_url_def truthy_def is_pref_def or_str_def sort_tuple_def or0_def

section \<open>The cache: properties\<close>

lemma cache_get_miss:
  "cache s url = None \<Longrightarrow> cache_get now url s = (None, emit (CacheRead url) s)"
  by (simp add: cache_get_def emit_def Let_def)

lemma cache_get_hit:
  "cache s url = Some row \<Longrightarrow> \<not> row_exp row < now \<Longrightarrow>
     cache_get now url s = (Some (row_val row), emit (CacheRead url) s)"
  by (simp add: cache_get_def emit_def Let_def)

lemma cache_get_expired:
  "cache s url = Some row \<Longrightarrow> row_exp row < now \<Longrightarrow>
     cache_get now url s =
       (None, s\<lparr>cache := (cache s)(url := None), trace := trace s @ [CacheRead url, CachePop url]\<rparr>)"
  by (simp add: cache_get_def emit_def Let_def)

lemma cache_get_Some_iff:
  "fst (cache_get now url s) = Some v \<longleftrightarrow>
     (\<exists>row. cache s url = Some row \<and> row_val row = v \<and> now \<le> row_exp row)"
  by (cases "cache s url")
     (auto simp: cache_get_def emit_def Let_def not_less split: if_splits)

lemma extract_info_eq:
  "extract_info lib url s =
     (case ydl_meta lib (YDL_BASE\<lparr>o_skip_download := Some True\<rparr>) url of
        Inl e \<Rightarrow> Inl e | Inr r \<Rightarrow> Inr (resolve r),
      emit (Extract (YDL_BASE\<lparr>o_skip_download := Some True\<rparr>) url False) s)"
  by (simp add: extract_info_def Let_def split: sum.splits)

section \<open>The download materializer: properties\<close>

lemma path_join_nonempty: "b \<noteq> [] \<Longrightarrow> path_join a b \<noteq> []"
  by (simp add: path_join_def)

lemma child_name_nonempty: "child_name d p = Some n \<Longrightarrow> n \<noteq> []"
  by (auto simp: child_name_def Let_def split: if_splits)

lemma map_filter_child_nonempty: "n \<in> set (List.map_filter (child_name d) ps) \<Longrightarrow> n \<noteq> []"
  by (induction ps) (auto dest: child_name_nonempty split: option.splits)

lemma listdir_nonempty: "listdir fs d = Some names \<Longrightarrow> n \<in> set names \<Longrightarrow> n \<noteq> []"
  using map_filter_child_nonempty by (fastforce simp: listdir_def split: if_splits)

lemma scan_tmpdir_nonempty: "scan_tmpdir fs d = Some p \<Longrightarrow> p \<noteq> []"
proof -
  assume a: "scan_tmpdir fs d = Some p"
  then obtain names name rest where l: "listdir fs d = Some names"
    and f: "filter ends_mp4 names = name # rest" and p: "p = path_join d name"
    by (auto simp: scan_tmpdir_def split: option.splits list.splits)
  from f have "name \<in> set (filter ends_mp4 names)" by simp
  then have "name \<in> set names" by simp
  with l have "name \<noteq> []" by (rule listdir_nonempty)
  with p show ?thesis by (simp add: path_join_nonempty)
qed

lemma try_download_unfold:
  "try_download lib url tmpdir opts s =
     (case ydl_download lib opts url (fsys s) of
        (Inl e, fs) \<Rightarrow> None
      | (Inr info, fs) \<Rightarrow>
          (case requested_downloads info of
             Some (Some p # _) \<Rightarrow> if p \<noteq> [] \<and> path_exists fs p then Some p else scan_tmpdir fs tmpdir
           | _ \<Rightarrow> scan_tmpdir fs tmpdir),
      s\<lparr>fsys := snd (ydl_download lib opts url (fsys s)),
        trace := trace s @ [Extract opts url True]\<rparr>)"
  by (simp add: try_download_def emit_def Let_def
        split: prod.splits sum.splits option.splits list.splits)

lemma try_download_state:
  "try_download lib url tmpdir opts s = (p, s2) \<Longrightarrow>
     s2 = s\<lparr>fsys := snd (ydl_download lib opts url (fsys s)),
           trace := trace s @ [Extract opts url True]\<rparr>"
  by (simp add: try_download_unfold)

lemma try_download_truthy:
  "try_download lib url tmpdir opts s = (Some p, s2) \<Longrightarrow> p \<noteq> []"
  by (auto simp: try_download_unfold dest: scan_tmpdir_nonempty
        split: prod.splits sum.splits option.splits list.splits if_splits)

lemma try_download_None_iff:
  "fst (try_download lib url tmpdir opts s) = None \<longleftrightarrow>
     (\<exists>e. fst (ydl_download lib opts url (fsys s)) = Inl e)
     \<or> (\<exists>info. fst (ydl_download lib opts url (fsys s)) = Inr info
          \<and> (\<forall>p rest. requested_downloads info = Some (Some p # rest) \<longrightarrow>
                p = [] \<or> \<not> path_exists (snd (ydl_download lib opts url (fsys s))) p)
          \<and> scan_tmpdir (snd (ydl_download lib opts url (fsys s))) tmpdir = None)"
  by (auto simp: try_download_unfold
        split: prod.splits sum.splits option.splits list.splits if_splits)

lemma rmtree_clears:
  "\<not> isdir (rmtree d fs) d
   \<and> (\<forall>p \<in> set (files (rmtree d fs)) \<union> set (dirs (rmtree d fs)). \<not> inside d p)"
  by (auto simp: rmtree_def isdir_def)

lemma materializer_unfold:
  assumes tA: "try_download lib url tmpdir (opts1 (path_join tmpdir ''%(id)s.%(ext)s''))
                 (emit (MkDtemp tmpdir) (s\<lparr>fsys := mkdtemp tmpdir (fsys s)\<rparr>)) = (pA, sA)"
      and tB: "try_download lib url tmpdir (opts2 (path_join tmpdir ''%(id)s.%(ext)s'')) sA = (pB, sB)"
  shows "yt_dlp_download_to_temp lib tmpdir url hint s =
     (let path = (if pA = None then pB else pA);
          sl = (if pA = None then sB else sA);
          failed = emit (RmTree tmpdir) (sl\<lparr>fsys := rmtree tmpdir (fsys sl)\<rparr>)
      in case path of
           None \<Rightarrow> (Inl (HTTPException 400 download_failed), failed)
         | Some p \<Rightarrow>
             if \<not> path_exists (fsys sl) p
             then (Inl (HTTPException 400 download_failed), failed)
             else (Inr (p, safe_filename (Some (or_str hint (splitext_root (basename p))))), sl))"
proof (cases pA)
  case None
  show ?thesis
  proof (cases pB)
    case None
    with \<open>pA = None\<close> tA tB show ?thesis
      by (simp add: yt_dlp_download_to_temp_def Let_def truthy_def)
  next
    case (Some p)
    with tB have "p \<noteq> []" by (auto dest: try_download_truthy)
    with Some \<open>pA = None\<close> tA tB show ?thesis
      by (simp add: yt_dlp_download_to_temp_def Let_def truthy_def)
  qed
next
  case (Some p)
  with tA have "p \<noteq> []" by (auto dest: try_download_truthy)
  with Some tA show ?thesis
    by (simp add: yt_dlp_download_to_temp_def Let_def truthy_def)
qed

section \<open>The download endpoint and the cache\<close>

lemma try_download_frame:
  "try_download lib url tmpdir opts (s\<lparr>cache := c\<rparr>) =
     (fst (try_download lib url tmpdir opts s), (snd (try_download lib url tmpdir opts s))\<lparr>cache := c\<rparr>)"
  by (simp add: try_download_unfold)

lemma materializer_frame:
  "yt_dlp_download_to_temp lib tmpdir url hint (s\<lparr>cache := c\<rparr>) =
     (fst (yt_dlp_download_to_temp lib tmpdir url hint s),
      (snd (yt_dlp_download_to_temp lib tmpdir url hint s))\<lparr>cache := c\<rparr>)"
  by (simp add: yt_dlp_download_to_temp_def try_download_unfold emit_def Let_def
        split: prod.splits option.splits)

lemma materializer_trace:
  "\<exists>evs. trace (snd (yt_dlp_download_to_temp lib tmpdir url hint s)) = trace s @ evs
         \<and> (\<forall>e \<in> set evs. \<not> is_cache_event e)"
  by (simp add: yt_dlp_download_to_temp_def try_download_unfold emit_def Let_def
        split: prod.splits option.splits)

lemma materializer_cache:
  "cache (snd (yt_dlp_download_to_temp lib tmpdir url hint s)) = cache s"
  by (simp add: yt_dlp_download_to_temp_def try_download_unfold emit_def Let_def
        split: prod.splits option.splits)

lemma cleanup_frame: "cleanup path (s\<lparr>cache := c\<rparr>) = (cleanup path s)\<lparr>cache := c\<rparr>"
  by (simp add: cleanup_def emit_def Let_def split: option.splits)

lemma cleanup_cache: "cache (cleanup path s) = cache s"
  by (simp add: cleanup_def emit_def Let_def split: option.splits)

lemma cleanup_trace:
  "\<exists>evs. trace (cleanup path s) = trace s @ evs \<and> (\<forall>e \<in> set evs. \<not> is_cache_event e)"
  by (simp add: cleanup_def emit_def Let_def split: option.splits)

lemma extract_info_frame:
  "extract_info lib url (s\<lparr>cache := c\<rparr>) =
     (fst (extract_info lib url s), (snd (extract_info lib url s))\<lparr>cache := c\<rparr>)"
  by (simp add: extract_info_eq emit_def)

lemma endpoint_frame:
  "api_tiktok_download lib tmpdir url (s\<lparr>cache := c\<rparr>) =
     (fst (api_tiktok_download lib tmpdir url s),
      (snd (api_tiktok_download lib tmpdir url s))\<lparr>cache := c\<rparr>)"
  by (simp add: api_tiktok_download_def extract_info_frame materializer_frame
        split: prod.splits sum.splits)

section \<open>The example runs\<close>

lemmas fs_eval =
  path_join_def path_exists_def isdir_def listdir_def child_name_def inside_def rmtree_def
  mkdtemp_def os_remove_def scan_tmpdir_def ends_mp4_def lower_char_def basename_def
  dirname_def splitext_root_def

lemma run_no_ffmpeg:
  "yt_dlp_download_to_temp lib_no_ffmpeg sample_tmpdir sample_url hint empty_state =
     (Inr (''/tmp/ttdl_k3x9/7.mp4'', safe_filename (Some (or_str hint ''7''))),
      \<lparr>cache = Map.empty,
       fsys = \<lparr>files = [''/tmp/ttdl_k3x9/7.f1.webm'', ''/tmp/ttdl_k3x9/7.mp4''],
               dirs = [''/tmp'', ''/tmp/ttdl_k3x9'']\<rparr>,
       trace = [MkDtemp ''/tmp/ttdl_k3x9'',
                Extract (opts1 ''/tmp/ttdl_k3x9/%(id)s.%(ext)s'') sample_url True,
                Extract (opts2 ''/tmp/ttdl_k3x9/%(id)s.%(ext)s'') sample_url True]\<rparr>)"
  by (simp add: yt_dlp_download_to_temp_def try_download_unfold lib_no_ffmpeg_def
        sample_tmpdir_def empty_state_def emit_def Let_def opts1_def opts2_def truthy_def fs_eval)

lemma run_broken:
  "yt_dlp_download_to_temp lib_broken sample_tmpdir sample_url hint empty_state =
     (Inl (HTTPException 400 download_failed),
      \<lparr>cache = Map.empty,
       fsys = \<lparr>files = [], dirs = [''/tmp'']\<rparr>,
       trace = [MkDtemp ''/tmp/ttdl_k3x9'',
                Extract (opts1 ''/tmp/ttdl_k3x9/%(id)s.%(ext)s'') sample_url True,
                Extract (opts2 ''/tmp/ttdl_k3x9/%(id)s.%(ext)s'') sample_url True,
                RmTree ''/tmp/ttdl_k3x9'']\<rparr>)"
  by (simp add: yt_dlp_download_to_temp_def try_download_unfold lib_broken_def
        sample_tmpdir_def empty_state_def emit_def Let_def opts1_def opts2_def truthy_def fs_eval)


lemma run_no_ffmpeg_fst:
  "fsys s = \<lparr>files = [], dirs = [''/tmp'']\<rparr> \<Longrightarrow>
   fst (yt_dlp_download_to_temp lib_no_ffmpeg sample_tmpdir sample_url hint s) =
     Inr (''/tmp/ttdl_k3x9/7.mp4'', safe_filename (Some (or_str hint ''7'')))"
  by (simp add: yt_dlp_download_to_temp_def try_download_unfold lib_no_ffmpeg_def
        sample_tmpdir_def emit_def Let_def opts1_def opts2_def truthy_def fs_eval)

lemma download_request_fst:
  "fst (download_request lib tmpdir url s) = fst (api_tiktok_download lib tmpdir url s)"
  by (simp add: download_request_def split: prod.splits sum.splits response.splits)

lemma sample_title: "m_title sample_meta = Some ''My: Video? <Test>''"
  by (simp add: sample_meta_def resolve_def first_entry_def sample_extraction_def
        sample_video_def bare_video_def Let_def)

text \<open>
  C1, as the code has it. The URL of the first requested format is the direct URL when it
  is non-empty; otherwise the top-level URL when that is non-empty; otherwise, with a
  non-empty list of formats, the URL (which may be absent or empty) of the first descriptor
  of maximal (height, fps, tbr), missing values counting as 0, among those of extension
  \<open>mp4\<close> whose codec contains \<open>avc\<close>, or, when there are none of these, the URL of the
  first such maximal descriptor among those with a non-empty URL; otherwise the direct URL
  is what the first requested format gave, which is null or empty. The selection is made
  on the first entry of a result that has entries, and on the result itself otherwise.
\<close>

theorem select_direct_order:
  "(truthy (requested_url info) \<longrightarrow> select_direct info = requested_url info)
   \<and> (\<not> truthy (requested_url info) \<and> truthy (v_url info) \<longrightarrow> select_direct info = v_url info)
   \<and> (\<not> truthy (requested_url info) \<and> \<not> truthy (v_url info) \<and> v_formats info = Some fmts
        \<and> filter is_pref fmts = ys @ m # zs
        \<and> (\<forall>y \<in> set ys. sort_tuple y < sort_tuple m)
        \<and> (\<forall>z \<in> set zs. sort_tuple z \<le> sort_tuple m)
      \<longrightarrow> select_direct info = fmt_url m)
   \<and> (\<not> truthy (requested_url info) \<and> \<not> truthy (v_url info) \<and> v_formats info = Some fmts
        \<and> filter is_pref fmts = []
        \<and> filter (\<lambda>f. truthy (fmt_url f)) fmts = ys @ m # zs
        \<and> (\<forall>y \<in> set ys. sort_tuple y < sort_tuple m)
        \<and> (\<forall>z \<in> set zs. sort_tuple z \<le> sort_tuple m)
      \<longrightarrow> select_direct info = fmt_url m)
   \<and> (\<not> truthy (requested_url info) \<and> \<not> truthy (v_url info)
        \<and> (v_formats info = None
            \<or> (v_formats info = Some fmts \<and> filter is_pref fmts = []
                \<and> filter (\<lambda>f. truthy (fmt_url f)) fmts = []))
      \<longrightarrow> select_direct info = requested_url info \<and> \<not> truthy (select_direct info))
   \<and> m_direct_url (resolve r) = select_direct (first_entry r)"
proof -
  have c1: "truthy (requested_url info) \<longrightarrow> select_direct info = requested_url info"
    by (simp add: select_direct_alt Let_def split: option.splits list.splits)
  have c2: "\<not> truthy (requested_url info) \<and> truthy (v_url info) \<longrightarrow> select_direct info = v_url info"
    by (simp add: select_direct_alt Let_def split: option.splits list.splits)
  have c3: "\<not> truthy (requested_url info) \<and> \<not> truthy (v_url info) \<and> v_formats info = Some fmts
        \<and> filter is_pref fmts = ys @ m # zs
        \<and> (\<forall>y \<in> set ys. sort_tuple y < sort_tuple m)
        \<and> (\<forall>z \<in> set zs. sort_tuple z \<le> sort_tuple m)
      \<longrightarrow> select_direct info = fmt_url m"
  proof
    assume a: "\<not> truthy (requested_url info) \<and> \<not> truthy (v_url info) \<and> v_formats info = Some fmts
        \<and> filter is_pref fmts = ys @ m # zs
        \<and> (\<forall>y \<in> set ys. sort_tuple y < sort_tuple m)
        \<and> (\<forall>z \<in> set zs. sort_tuple z \<le> sort_tuple m)"
    then have ne: "fmts \<noteq> []" by auto
    have "select_format fmts (requested_url info) = fmt_url m"
      using a by (intro select_format_pref [of fmts ys m zs]) auto
    then show "select_direct info = fmt_url m"
      using a ne by (simp add: select_direct_formats)
  qed
  have c4: "\<not> truthy (requested_url info) \<and> \<not> truthy (v_url info) \<and> v_formats info = Some fmts
        \<and> filter is_pref fmts = []
        \<and> filter (\<lambda>f. truthy (fmt_url f)) fmts = ys @ m # zs
        \<and> (\<forall>y \<in> set ys. sort_tuple y < sort_tuple m)
        \<and> (\<forall>z \<in> set zs. sort_tuple z \<le> sort_tuple m)
      \<longrightarrow> select_direct info = fmt_url m"
  proof
    assume a: "\<not> truthy (requested_url info) \<and> \<not> truthy (v_url info) \<and> v_formats info = Some fmts
        \<and> filter is_pref fmts = []
        \<and> filter (\<lambda>f. truthy (fmt_url f)) fmts = ys @ m # zs
        \<and> (\<forall>y \<in> set ys. sort_tuple y < sort_tuple m)
        \<and> (\<forall>z \<in> set zs. sort_tuple z \<le> sort_tuple m)"
    then have ne: "fmts \<noteq> []" by auto
    have "select_format fmts (requested_url info) = fmt_url m"
      using a by (intro select_format_fallback [of fmts ys m zs]) auto
    then show "select_direct info = fmt_url m"
      using a ne by (simp add: select_direct_formats)
  qed
  have c5: "\<not> truthy (requested_url info) \<and> \<not> truthy (v_url info)
        \<and> (v_formats info = None
            \<or> (v_formats info = Some fmts \<and> filter is_pref fmts = []
                \<and> filter (\<lambda>f. truthy (fmt_url f)) fmts = []))
      \<longrightarrow> select_direct info = requested_url info \<and> \<not> truthy (select_direct info)"
  proof
    assume a: "\<not> truthy (requested_url info) \<and> \<not> truthy (v_url info)
        \<and> (v_formats info = None
            \<or> (v_formats info = Some fmts \<and> filter is_pref fmts = []
                \<and> filter (\<lambda>f. truthy (fmt_url f)) fmts = []))"
    have "select_direct info = requested_url info"
    proof (cases "v_formats info")
      case None
      with a show ?thesis by (simp add: select_direct_alt Let_def)
    next
      case (Some fs)
      with a have "select_format fs (requested_url info) = requested_url info"
        by (auto intro: select_format_none)
      with a Some show ?thesis
        by (simp add: select_direct_formats)
    qed
    with a show "select_direct info = requested_url info \<and> \<not> truthy (select_direct info)" by simp
  qed
  have c6: "m_direct_url (resolve r) = select_direct (first_entry r)"
    by (simp add: resolve_def Let_def)
  from c1 c2 c3 c4 c5 c6 show ?thesis by blast
qed

theorem select_direct_order_witness:
  "select_direct video_requested = Some ''https://cdn.example/720.mp4''
   \<and> select_direct video_top_url = Some ''https://cdn.example/top.mp4''
   \<and> select_direct video_pref = Some ''https://cdn.example/1080.mp4''
   \<and> select_direct video_fallback = Some ''https://cdn.example/2160.mp4''
   \<and> select_direct bare_video = None"
proof -
  have w1: "truthy (requested_url video_requested)"
    by (simp add: example_videos example_formats selection_eval)
  have w2: "\<not> truthy (requested_url video_top_url) \<and> truthy (v_url video_top_url)"
    by (simp add: example_videos selection_eval)
  have w3: "\<not> truthy (requested_url video_pref) \<and> \<not> truthy (v_url video_pref)
        \<and> v_formats video_pref = Some [fmt_480, fmt_hevc, fmt_1080, fmt_720]
        \<and> filter is_pref [fmt_480, fmt_hevc, fmt_1080, fmt_720] = [fmt_480] @ fmt_1080 # [fmt_720]
        \<and> (\<forall>y \<in> set [fmt_480]. sort_tuple y < sort_tuple fmt_1080)
        \<and> (\<forall>z \<in> set [fmt_720]. sort_tuple z \<le> sort_tuple fmt_1080)"
    by (simp add: example_videos example_formats selection_eval)
  have w4: "\<not> truthy (requested_url video_fallback) \<and> \<not> truthy (v_url video_fallback)
        \<and> v_formats video_fallback = Some [fmt_webm, fmt_hevc]
        \<and> filter is_pref [fmt_webm, fmt_hevc] = []
        \<and> filter (\<lambda>f. truthy (fmt_url f)) [fmt_webm, fmt_hevc] = [fmt_webm] @ fmt_hevc # []
        \<and> (\<forall>y \<in> set [fmt_webm]. sort_tuple y < sort_tuple fmt_hevc)
        \<and> (\<forall>z \<in> set []. sort_tuple z \<le> sort_tuple fmt_hevc)"
    by (simp add: example_videos example_formats selection_eval)
  have w5: "\<not> truthy (requested_url bare_video) \<and> \<not> truthy (v_url bare_video)
        \<and> (v_formats bare_video = None
            \<or> (v_formats bare_video = Some [] \<and> filter is_pref [] = []
                \<and> filter (\<lambda>f. truthy (fmt_url f)) [] = []))"
    by (simp add: example_videos selection_eval)
  have r1: "select_direct video_requested = requested_url video_requested"
    using select_direct_order [of video_requested] w1 by blast
  have r2: "select_direct video_top_url = v_url video_top_url"
    using select_direct_order [of video_top_url] w2 by blast
  have r3: "select_direct video_pref = fmt_url fmt_1080"
    using select_direct_order [of video_pref "[fmt_480, fmt_hevc, fmt_1080, fmt_720]"
        "[fmt_480]" fmt_1080 "[fmt_720]"] w3 by blast
  have r4: "select_direct video_fallback = fmt_url fmt_hevc"
    using select_direct_order [of video_fallback "[fmt_webm, fmt_hevc]" "[fmt_webm]" fmt_hevc "[]"]
      w4 by blast
  have r5: "select_direct bare_video = requested_url bare_video"
    using select_direct_order [of bare_video "[]"] w5 by blast
  from r1 r2 r3 r4 r5 show ?thesis
    by (simp add: example_videos example_formats requested_url_def)
qed

text \<open>The claim as stated fails where the first requested format has no URL: the
  selection goes on to the top-level URL.\<close>

theorem select_direct_requested_without_url:
  "v_requested_formats video_requested_no_url = Some [fmt_no_url]
   \<and> fmt_url fmt_no_url = None
   \<and> select_direct video_requested_no_url = Some ''https://cdn.example/top.mp4''"
  by (simp add: select_direct_def Let_def example_videos example_formats selection_eval)

text \<open>
  C2. With \<open>s0\<close> the state after \<open>mkdtemp\<close>, \<open>pA\<close> what \<open>try_download\<close> returns under
  the options of strategy A and \<open>pB\<close> what it returns under those of strategy B: the
  materializer calls the library with A first; its calls in download mode are A alone when
  A gave a path, and A then B, each once, when A gave none; A gives none exactly when the
  library raised or no requested download exists and the scan of the directory finds no
  mp4 file; and when neither gives a path the result is the exception
  \<open>HTTPException(400, "Download failed (ffmpeg missing or unsupported format).")\<close>,
  after which the temporary directory is gone and nothing lies inside it.
\<close>

theorem download_strategy_order:
  assumes s0: "s0 = emit (MkDtemp tmpdir) (s\<lparr>fsys := mkdtemp tmpdir (fsys s)\<rparr>)"
      and A: "A = opts1 (path_join tmpdir ''%(id)s.%(ext)s'')"
      and B: "B = opts2 (path_join tmpdir ''%(id)s.%(ext)s'')"
      and tA: "try_download lib url tmpdir A s0 = (pA, sA)"
      and tB: "try_download lib url tmpdir B sA = (pB, sB)"
      and run: "yt_dlp_download_to_temp lib tmpdir url hint s = (res, s')"
  shows "(\<exists>rest. trace s' = trace s @ MkDtemp tmpdir # Extract A url True # rest)
     \<and> filter is_download_call (drop (length (trace s)) (trace s')) =
          (if pA = None then [Extract A url True, Extract B url True] else [Extract A url True])
     \<and> (pA = None \<longleftrightarrow>
          (\<exists>e. fst (ydl_download lib A url (fsys s0)) = Inl e)
          \<or> (\<exists>info. fst (ydl_download lib A url (fsys s0)) = Inr info
               \<and> (\<forall>p rest. requested_downloads info = Some (Some p # rest) \<longrightarrow>
                     p = [] \<or> \<not> path_exists (snd (ydl_download lib A url (fsys s0))) p)
               \<and> scan_tmpdir (snd (ydl_download lib A url (fsys s0))) tmpdir = None))
     \<and> (pA = None \<and> pB = None \<longrightarrow>
          res = Inl (HTTPException 400 ''Download failed (ffmpeg missing or unsupported format).'')
          \<and> \<not> isdir (fsys s') tmpdir
          \<and> (\<forall>p \<in> set (files (fsys s')) \<union> set (dirs (fsys s')). \<not> inside tmpdir p))"
proof -
  have trA: "trace sA = trace s @ [MkDtemp tmpdir, Extract A url True]"
    using try_download_state [OF tA] s0 by (simp add: emit_def)
  have trB: "trace sB = trace s @ [MkDtemp tmpdir, Extract A url True, Extract B url True]"
    using try_download_state [OF tB] trA by simp
  have unf: "(res, s') =
     (let path = (if pA = None then pB else pA);
          sl = (if pA = None then sB else sA);
          failed = emit (RmTree tmpdir) (sl\<lparr>fsys := rmtree tmpdir (fsys sl)\<rparr>)
      in case path of
           None \<Rightarrow> (Inl (HTTPException 400 download_failed), failed)
         | Some p \<Rightarrow>
             if \<not> path_exists (fsys sl) p
             then (Inl (HTTPException 400 download_failed), failed)
             else (Inr (p, safe_filename (Some (or_str hint (splitext_root (basename p))))), sl))"
    using materializer_unfold [of lib url tmpdir s pA sA pB sB hint] tA tB run
    unfolding s0 A B by simp
  have tr: "trace s' = trace s @ [MkDtemp tmpdir, Extract A url True]
              @ (if pA = None then [Extract B url True] else [])
              @ (if s' = (if pA = None then sB else sA) then [] else [RmTree tmpdir])"
    using unf trA trB
    by (auto simp: Let_def emit_def split: option.splits if_splits)
  have first: "\<exists>rest. trace s' = trace s @ MkDtemp tmpdir # Extract A url True # rest"
    using tr by simp
  have calls: "filter is_download_call (drop (length (trace s)) (trace s')) =
          (if pA = None then [Extract A url True, Extract B url True] else [Extract A url True])"
    using tr by simp
  have why: "pA = None \<longleftrightarrow>
          (\<exists>e. fst (ydl_download lib A url (fsys s0)) = Inl e)
          \<or> (\<exists>info. fst (ydl_download lib A url (fsys s0)) = Inr info
               \<and> (\<forall>p rest. requested_downloads info = Some (Some p # rest) \<longrightarrow>
                     p = [] \<or> \<not> path_exists (snd (ydl_download lib A url (fsys s0))) p)
               \<and> scan_tmpdir (snd (ydl_download lib A url (fsys s0))) tmpdir = None)"
    using try_download_None_iff [of lib url tmpdir A s0] tA by simp
  have both: "pA = None \<and> pB = None \<longrightarrow>
          res = Inl (HTTPException 400 ''Download failed (ffmpeg missing or unsupported format).'')
          \<and> \<not> isdir (fsys s') tmpdir
          \<and> (\<forall>p \<in> set (files (fsys s')) \<union> set (dirs (fsys s')). \<not> inside tmpdir p)"
  proof
    assume n: "pA = None \<and> pB = None"
    with unf have r: "res = Inl (HTTPException 400 download_failed)"
      and s: "s' = emit (RmTree tmpdir) (sB\<lparr>fsys := rmtree tmpdir (fsys sB)\<rparr>)"
      by (simp_all add: Let_def)
    from s have "fsys s' = rmtree tmpdir (fsys sB)" by (simp add: emit_def)
    with r rmtree_clears [of tmpdir "fsys sB"]
    show "res = Inl (HTTPException 400 ''Download failed (ffmpeg missing or unsupported format).'')
          \<and> \<not> isdir (fsys s') tmpdir
          \<and> (\<forall>p \<in> set (files (fsys s')) \<union> set (dirs (fsys s')). \<not> inside tmpdir p)"
      by (simp add: download_failed_def)
  qed
  from first calls why both show ?thesis by blast
qed

theorem download_strategy_order_witness:
  "fst (yt_dlp_download_to_temp lib_broken sample_tmpdir sample_url None empty_state) =
      Inl (HTTPException 400 ''Download failed (ffmpeg missing or unsupported format).'')
   \<and> fsys (snd (yt_dlp_download_to_temp lib_broken sample_tmpdir sample_url None empty_state)) =
        \<lparr>files = [], dirs = [''/tmp'']\<rparr>
   \<and> filter is_download_call
        (trace (snd (yt_dlp_download_to_temp lib_broken sample_tmpdir sample_url None empty_state))) =
        [Extract (opts1 ''/tmp/ttdl_k3x9/%(id)s.%(ext)s'') sample_url True,
         Extract (opts2 ''/tmp/ttdl_k3x9/%(id)s.%(ext)s'') sample_url True]"
proof -
  let ?s0 = "emit (MkDtemp sample_tmpdir) (empty_state\<lparr>fsys := mkdtemp sample_tmpdir (fsys empty_state)\<rparr>)"
  let ?A = "opts1 (path_join sample_tmpdir ''%(id)s.%(ext)s'')"
  let ?B = "opts2 (path_join sample_tmpdir ''%(id)s.%(ext)s'')"
  let ?tA = "try_download lib_broken sample_url sample_tmpdir ?A ?s0"
  let ?tB = "try_download lib_broken sample_url sample_tmpdir ?B (snd ?tA)"
  let ?run = "yt_dlp_download_to_temp lib_broken sample_tmpdir sample_url None empty_state"
  have pA: "fst ?tA = None" by (simp add: try_download_unfold lib_broken_def)
  have pB: "fst ?tB = None" by (simp add: try_download_unfold lib_broken_def)
  have tr0: "trace empty_state = []" by (simp add: empty_state_def)
  from download_strategy_order [where lib = lib_broken and url = sample_url
      and tmpdir = sample_tmpdir and s = empty_state and hint = None,
      OF refl refl refl surjective_pairing surjective_pairing surjective_pairing]
  have "filter is_download_call (drop (length (trace empty_state)) (trace (snd ?run))) =
          (if fst ?tA = None then [Extract ?A sample_url True, Extract ?B sample_url True]
           else [Extract ?A sample_url True])"
    and "fst ?tA = None \<and> fst ?tB = None \<longrightarrow>
          fst ?run = Inl (HTTPException 400 ''Download failed (ffmpeg missing or unsupported format).'')
          \<and> \<not> isdir (fsys (snd ?run)) sample_tmpdir"
    by blast+
  moreover have "fsys (snd ?run) = \<lparr>files = [], dirs = [''/tmp'']\<rparr>"
    by (simp add: run_broken)
  moreover have "path_join sample_tmpdir ''%(id)s.%(ext)s'' = ''/tmp/ttdl_k3x9/%(id)s.%(ext)s''"
    by (simp add: path_join_def sample_tmpdir_def)
  ultimately show ?thesis using pA pB tr0 by simp
qed

lemma download_fname:
  "fst (yt_dlp_download_to_temp lib tmpdir url hint s) = Inr (p, fname) \<Longrightarrow>
     fname = safe_filename (Some (or_str hint (splitext_root (basename p))))"
  by (auto simp: yt_dlp_download_to_temp_def Let_def split: prod.splits option.splits if_splits)

text \<open>
  C3, as the code has it. The name is first stripped of leading and trailing whitespace;
  then every remaining character of the class is replaced by an underscore and the
  result is cut to 100 characters. The base is never empty (it is \<open>video\<close> when nothing is
  left), no character of the class occurs in the file name, and the name ends in \<open>.mp4\<close>.
  Without a hint the materializer passes the base name of the file without its extension.
\<close>

theorem safe_filename_sanitized:
  "(\<exists>base. safe_filename name = base @ ''.mp4''
      \<and> base = (if strip (or_str name ''video'') = [] then ''video''
                 else re_sub_illegal (take 100 (strip (or_str name ''video''))))
      \<and> base \<noteq> [] \<and> length base \<le> 100
      \<and> (\<forall>c \<in> set (safe_filename name). c \<notin> set illegal_chars))
   \<and> safe_filename (Some ''My: Video? <Test>'') = ''My_ Video_ _Test_.mp4''
   \<and> safe_filename None = ''video.mp4''
   \<and> (fst (yt_dlp_download_to_temp lib tmpdir url hint s) = Inr (p, fname) \<longrightarrow>
        fname = (if truthy hint then safe_filename hint
                 else safe_filename (Some (splitext_root (basename p)))))"
proof -
  let ?raw = "strip (or_str name ''video'')"
  let ?base = "safe_base name ''video''"
  have eq: "?base = (if ?raw = [] then ''video'' else re_sub_illegal (take 100 ?raw))"
    by (simp add: safe_base_def Let_def take_re_sub re_sub_illegal_Nil)
  have ne: "?base \<noteq> []" unfolding eq by (simp add: re_sub_illegal_Nil)
  have len: "length ?base \<le> 100" unfolding eq by (simp add: re_sub_illegal_def)
  have clean: "set ?base \<inter> set illegal_chars = {}"
    unfolding eq using re_sub_illegal_clean video_clean by simp
  have ext: "set ''.mp4'' \<inter> set illegal_chars = {}" by (simp add: illegal_chars_def)
  have all: "\<forall>c \<in> set (safe_filename name). c \<notin> set illegal_chars"
    using clean ext by (auto simp: safe_filename_def safe_filename_fb_def)
  have general: "\<exists>base. safe_filename name = base @ ''.mp4''
      \<and> base = (if ?raw = [] then ''video'' else re_sub_illegal (take 100 ?raw))
      \<and> base \<noteq> [] \<and> length base \<le> 100
      \<and> (\<forall>c \<in> set (safe_filename name). c \<notin> set illegal_chars)"
    using eq ne len all by (auto simp: safe_filename_def safe_filename_fb_def)
  have example: "safe_filename (Some ''My: Video? <Test>'') = ''My_ Video_ _Test_.mp4''"
    by (simp add: safe_filename_defs)
  have none: "safe_filename None = ''video.mp4''"
    by (simp add: safe_filename_defs)
  have hint: "fst (yt_dlp_download_to_temp lib tmpdir url hint s) = Inr (p, fname) \<longrightarrow>
        fname = (if truthy hint then safe_filename hint
                 else safe_filename (Some (splitext_root (basename p))))"
  proof
    assume "fst (yt_dlp_download_to_temp lib tmpdir url hint s) = Inr (p, fname)"
    then have "fname = safe_filename (Some (or_str hint (splitext_root (basename p))))"
      by (rule download_fname)
    then show "fname = (if truthy hint then safe_filename hint
                 else safe_filename (Some (splitext_root (basename p))))"
      by (cases hint) (auto simp: truthy_def or_str_def)
  qed
  from general example none hint show ?thesis by blast
qed

theorem safe_filename_sanitized_witness:
  "(\<exists>base. safe_filename (Some ''My: Video? <Test>'') = base @ ''.mp4''
       \<and> base \<noteq> [] \<and> length base \<le> 100)
   \<and> set (safe_filename (Some ''My: Video? <Test>'')) \<inter> set illegal_chars = {}
   \<and> fst (yt_dlp_download_to_temp lib_no_ffmpeg sample_tmpdir sample_url None empty_state) =
        Inr (''/tmp/ttdl_k3x9/7.mp4'', ''7.mp4'')
   \<and> ''7.mp4'' = safe_filename (Some (splitext_root (basename ''/tmp/ttdl_k3x9/7.mp4'')))"
proof -
  have run: "fst (yt_dlp_download_to_temp lib_no_ffmpeg sample_tmpdir sample_url None empty_state) =
        Inr (''/tmp/ttdl_k3x9/7.mp4'', ''7.mp4'')"
    by (simp add: run_no_ffmpeg safe_filename_defs)
  note t = safe_filename_sanitized [of "Some ''My: Video? <Test>''" lib_no_ffmpeg sample_tmpdir
      sample_url None empty_state "''/tmp/ttdl_k3x9/7.mp4''" "''7.mp4''"]
  from t have a: "\<exists>base. safe_filename (Some ''My: Video? <Test>'') = base @ ''.mp4''
       \<and> base \<noteq> [] \<and> length base \<le> 100" by blast
  from t have b: "set (safe_filename (Some ''My: Video? <Test>'')) \<inter> set illegal_chars = {}"
    by blast
  from t run have c: "''7.mp4'' = safe_filename (Some (splitext_root (basename ''/tmp/ttdl_k3x9/7.mp4'')))"
    by (simp add: truthy_def)
  from a b run c show ?thesis by blast
qed

text \<open>The claim as stated fails at a name that begins with a tab: the tab is stripped,
  not replaced.\<close>

theorem safe_filename_strips_first:
  "safe_filename (Some [CHR 0x09, CHR ''a'', CHR ''b'']) = ''ab.mp4''
   \<and> safe_filename (Some [CHR 0x09, CHR ''a'', CHR ''b'']) \<noteq> ''_ab.mp4''"
  by (simp add: safe_filename_defs)

text \<open>
  C4, as the code has it. When no row of the URL is served (there is none, or it has
  expired) and the library raises, the request makes one cache read and no cache write:
  the cache is unchanged but for the expired row of this URL, which the lookup has
  dropped. When the library returns, the request makes one cache read and then one cache
  write, of the resolved metadata with the float sum of the second clock reading and 600
  as expiry.
\<close>

theorem api_tiktok_cache_write:
  "cache s url = None \<or> (cache s url = Some row \<and> row_exp row < t_get) \<longrightarrow>
     (ydl_meta lib (YDL_BASE\<lparr>o_skip_download := Some True\<rparr>) url = Inl e \<longrightarrow>
        api_tiktok lib t_get t_set url s =
          (Inl e,
           s\<lparr>cache := (cache s)(url := None),
             trace := trace s @ CacheRead url # (if cache s url = None then [] else [CachePop url])
                        @ [Extract (YDL_BASE\<lparr>o_skip_download := Some True\<rparr>) url False]\<rparr>))
     \<and> (ydl_meta lib (YDL_BASE\<lparr>o_skip_download := Some True\<rparr>) url = Inr r \<longrightarrow>
        api_tiktok lib t_get t_set url s =
          (Inr (JSONResponse (json_body (resolve r))),
           s\<lparr>cache := (cache s)(url \<mapsto> \<lparr>row_val = resolve r, row_exp = float_add t_set 600\<rparr>),
             trace := trace s @ CacheRead url # (if cache s url = None then [] else [CachePop url])
                        @ [Extract (YDL_BASE\<lparr>o_skip_download := Some True\<rparr>) url False,
                           CacheWrite url]\<rparr>))"
proof
  assume "cache s url = None \<or> (cache s url = Some row \<and> row_exp row < t_get)"
  then show "(ydl_meta lib (YDL_BASE\<lparr>o_skip_download := Some True\<rparr>) url = Inl e \<longrightarrow>
        api_tiktok lib t_get t_set url s =
          (Inl e,
           s\<lparr>cache := (cache s)(url := None),
             trace := trace s @ CacheRead url # (if cache s url = None then [] else [CachePop url])
                        @ [Extract (YDL_BASE\<lparr>o_skip_download := Some True\<rparr>) url False]\<rparr>))
     \<and> (ydl_meta lib (YDL_BASE\<lparr>o_skip_download := Some True\<rparr>) url = Inr r \<longrightarrow>
        api_tiktok lib t_get t_set url s =
          (Inr (JSONResponse (json_body (resolve r))),
           s\<lparr>cache := (cache s)(url \<mapsto> \<lparr>row_val = resolve r, row_exp = float_add t_set 600\<rparr>),
             trace := trace s @ CacheRead url # (if cache s url = None then [] else [CachePop url])
                        @ [Extract (YDL_BASE\<lparr>o_skip_download := Some True\<rparr>) url False,
                           CacheWrite url]\<rparr>))"
  proof
    assume n: "cache s url = None"
    then have "(cache s)(url := None) = cache s" by (simp add: fun_upd_idem_iff)
    with n show ?thesis
      by (simp add: api_tiktok_def cache_get_miss extract_info_eq cache_set_def emit_def
            TTL_SECONDS_def)
  next
    assume x: "cache s url = Some row \<and> row_exp row < t_get"
    then show ?thesis
      by (simp add: api_tiktok_def cache_get_expired extract_info_eq cache_set_def emit_def
            TTL_SECONDS_def)
  qed
qed

theorem api_tiktok_cache_write_witness:
  "api_tiktok lib_down 2000 2001 sample_url cached_state =
     (Inl (ExtractorError ''unavailable''),
      cached_state\<lparr>cache := (cache cached_state)(sample_url := None),
        trace := [CacheRead sample_url, CachePop sample_url,
                  Extract (YDL_BASE\<lparr>o_skip_download := Some True\<rparr>) sample_url False]\<rparr>)
   \<and> api_tiktok lib_no_ffmpeg 2000 2001 sample_url empty_state =
     (Inr (JSONResponse (json_body (resolve sample_extraction))),
      empty_state\<lparr>cache := (cache empty_state)
                     (sample_url \<mapsto> \<lparr>row_val = resolve sample_extraction, row_exp = 2601\<rparr>),
        trace := [CacheRead sample_url,
                  Extract (YDL_BASE\<lparr>o_skip_download := Some True\<rparr>) sample_url False,
                  CacheWrite sample_url]\<rparr>)"
proof -
  have h1: "cache cached_state sample_url = Some \<lparr>row_val = sample_meta, row_exp = 1000\<rparr>
      \<and> row_exp \<lparr>row_val = sample_meta, row_exp = 1000\<rparr> < 2000"
    by (simp add: cached_state_def empty_state_def)
  have m1: "ydl_meta lib_down (YDL_BASE\<lparr>o_skip_download := Some True\<rparr>) sample_url =
      Inl (ExtractorError ''unavailable'')"
    by (simp add: lib_down_def)
  have h2: "cache empty_state sample_url = None" by (simp add: empty_state_def)
  have m2: "ydl_meta lib_no_ffmpeg (YDL_BASE\<lparr>o_skip_download := Some True\<rparr>) sample_url =
      Inr sample_extraction"
    by (simp add: lib_no_ffmpeg_def)
  have t1: "trace cached_state = []" and t2: "trace empty_state = []"
    by (simp_all add: cached_state_def empty_state_def)
  from api_tiktok_cache_write [of cached_state sample_url "\<lparr>row_val = sample_meta, row_exp = 1000\<rparr>"
      2000 lib_down "ExtractorError ''unavailable''" 2001] h1 m1
  have r1: "api_tiktok lib_down 2000 2001 sample_url cached_state =
     (Inl (ExtractorError ''unavailable''),
      cached_state\<lparr>cache := (cache cached_state)(sample_url := None),
        trace := trace cached_state @ CacheRead sample_url #
                   (if cache cached_state sample_url = None then [] else [CachePop sample_url])
                   @ [Extract (YDL_BASE\<lparr>o_skip_download := Some True\<rparr>) sample_url False]\<rparr>)"
    by blast
  from api_tiktok_cache_write [of empty_state sample_url _ 2000 lib_no_ffmpeg _ 2001
      sample_extraction] h2 m2
  have r2: "api_tiktok lib_no_ffmpeg 2000 2001 sample_url empty_state =
     (Inr (JSONResponse (json_body (resolve sample_extraction))),
      empty_state\<lparr>cache := (cache empty_state)
                     (sample_url \<mapsto> \<lparr>row_val = resolve sample_extraction, row_exp = float_add 2001 600\<rparr>),
        trace := trace empty_state @ CacheRead sample_url #
                   (if cache empty_state sample_url = None then [] else [CachePop sample_url])
                   @ [Extract (YDL_BASE\<lparr>o_skip_download := Some True\<rparr>) sample_url False,
                      CacheWrite sample_url]\<rparr>)"
    by blast
  from r1 r2 h1 h2 t1 t2 show ?thesis by (simp add: float_add_2001)
qed

text \<open>The claim as stated fails where the cache holds an expired row of the URL and the
  library raises: the lookup has dropped the row, so the cache has changed.\<close>

theorem api_tiktok_drops_expired_row:
  "cache cached_state sample_url = Some \<lparr>row_val = sample_meta, row_exp = 1000\<rparr>
   \<and> fst (api_tiktok lib_down 2000 2001 sample_url cached_state) =
        Inl (ExtractorError ''unavailable'')
   \<and> cache (snd (api_tiktok lib_down 2000 2001 sample_url cached_state)) sample_url = None"
  by (simp add: api_tiktok_def cache_get_def extract_info_def emit_def Let_def
        cached_state_def empty_state_def lib_down_def)

text \<open>
  C5, as the code has it. A row stored at time \<open>t\<close> is returned by a lookup at every time up
  to its stored expiry, and by none later: the later lookup returns nothing and drops the
  row. The stored expiry is the float sum of \<open>t\<close> and 600, which is \<open>t + 600\<close> rounded to the
  nearest double, and is \<open>t + 600\<close> itself whenever that number is a double. Whatever a
  lookup returns is the value of a row that has not expired, and the endpoint asks the
  library again when the row of its URL has expired.
\<close>

theorem cache_entry_ttl:
  "(now \<le> float_add t 600 \<longrightarrow> fst (cache_get now url (cache_set t url v s)) = Some v)
   \<and> (float_add t 600 < now \<longrightarrow>
        fst (cache_get now url (cache_set t url v s)) = None
        \<and> cache (snd (cache_get now url (cache_set t url v s))) url = None)
   \<and> (t + 600 = of_int m * 2 powi e \<and> \<bar>m\<bar> < 2 ^ 53 \<and> - 1074 \<le> e \<longrightarrow>
        float_add t 600 = t + 600)
   \<and> (fst (cache_get now' url' s') = Some v' \<longrightarrow>
        (\<exists>row. cache s' url' = Some row \<and> row_val row = v' \<and> now' \<le> row_exp row))
   \<and> (cache s' url' = Some row' \<and> row_exp row' < now' \<longrightarrow>
        fst (api_tiktok lib now' t_set url' s') =
          (case ydl_meta lib (YDL_BASE\<lparr>o_skip_download := Some True\<rparr>) url' of
             Inl e \<Rightarrow> Inl e
           | Inr r \<Rightarrow> Inr (JSONResponse (json_body (resolve r)))))"
proof -
  let ?s = "cache_set t url v s"
  have row: "cache ?s url = Some \<lparr>row_val = v, row_exp = float_add t 600\<rparr>"
    by (simp add: cache_set_def emit_def TTL_SECONDS_def)
  have fresh: "now \<le> float_add t 600 \<longrightarrow> fst (cache_get now url ?s) = Some v"
    using cache_get_hit [OF row, of now] by auto
  have stale: "float_add t 600 < now \<longrightarrow>
        fst (cache_get now url ?s) = None \<and> cache (snd (cache_get now url ?s)) url = None"
    using cache_get_expired [OF row, of now] by auto
  have exact: "t + 600 = of_int m * 2 powi e \<and> \<bar>m\<bar> < 2 ^ 53 \<and> - 1074 \<le> e \<longrightarrow>
        float_add t 600 = t + 600"
    using float_add_exact [of t 600 m e] by blast
  have served: "fst (cache_get now' url' s') = Some v' \<longrightarrow>
        (\<exists>row. cache s' url' = Some row \<and> row_val row = v' \<and> now' \<le> row_exp row)"
    by (simp add: cache_get_Some_iff)
  have endpoint: "cache s' url' = Some row' \<and> row_exp row' < now' \<longrightarrow>
        fst (api_tiktok lib now' t_set url' s') =
          (case ydl_meta lib (YDL_BASE\<lparr>o_skip_download := Some True\<rparr>) url' of
             Inl e \<Rightarrow> Inl e
           | Inr r \<Rightarrow> Inr (JSONResponse (json_body (resolve r))))"
    by (auto simp: api_tiktok_def cache_get_expired extract_info_eq split: sum.splits)
  from fresh stale exact served endpoint show ?thesis by blast
qed

theorem cache_entry_ttl_witness:
  "float_add 1000 600 = 1600
   \<and> fst (cache_get 1600 sample_url (cache_set 1000 sample_url sample_meta empty_state)) =
        Some sample_meta
   \<and> fst (cache_get 1601 sample_url (cache_set 1000 sample_url sample_meta empty_state)) = None
   \<and> cache (snd (cache_get 1601 sample_url (cache_set 1000 sample_url sample_meta empty_state)))
        sample_url = None
   \<and> fst (cache_get 900 sample_url cached_state) = Some sample_meta
   \<and> (\<exists>row. cache cached_state sample_url = Some row \<and> row_val row = sample_meta
         \<and> 900 \<le> row_exp row)
   \<and> fst (api_tiktok lib_down 2000 2001 sample_url cached_state) =
        Inl (ExtractorError ''unavailable'')"
proof -
  have h0: "(1000::rat) + 600 = of_int 1600 * 2 powi 0 \<and> \<bar>1600::int\<bar> < 2 ^ 53 \<and> (- 1074::int) \<le> 0"
    by simp
  have h3: "fst (cache_get 900 sample_url cached_state) = Some sample_meta"
    by (simp add: cache_get_def cached_state_def empty_state_def emit_def Let_def)
  have h4: "cache cached_state sample_url = Some \<lparr>row_val = sample_meta, row_exp = 1000\<rparr>
      \<and> row_exp \<lparr>row_val = sample_meta, row_exp = 1000\<rparr> < 2000"
    by (simp add: cached_state_def empty_state_def)
  have m: "ydl_meta lib_down (YDL_BASE\<lparr>o_skip_download := Some True\<rparr>) sample_url =
      Inl (ExtractorError ''unavailable'')"
    by (simp add: lib_down_def)
  note a = cache_entry_ttl [of 1600 1000 sample_url sample_meta empty_state 1600 0 900 sample_url
      cached_state sample_meta]
  note b = cache_entry_ttl [of 1601 1000 sample_url sample_meta empty_state 1600 0 2000 sample_url
      cached_state _ "\<lparr>row_val = sample_meta, row_exp = 1000\<rparr>" lib_down 2001]
  from a h0 have c0: "float_add 1000 600 = (1600::rat)" by simp
  then have h1: "(1600::rat) \<le> float_add 1000 600" and h2: "float_add 1000 600 < (1601::rat)"
    by simp_all
  from a h1 have c1: "fst (cache_get 1600 sample_url (cache_set 1000 sample_url sample_meta empty_state)) =
      Some sample_meta" by blast
  from b h2 have c2: "fst (cache_get 1601 sample_url (cache_set 1000 sample_url sample_meta empty_state)) = None
     \<and> cache (snd (cache_get 1601 sample_url (cache_set 1000 sample_url sample_meta empty_state)))
        sample_url = None" by blast
  from a h3 have c3: "\<exists>row. cache cached_state sample_url = Some row \<and> row_val row = sample_meta
         \<and> 900 \<le> row_exp row" by blast
  from b h4 m have c4: "fst (api_tiktok lib_down 2000 2001 sample_url cached_state) =
        Inl (ExtractorError ''unavailable'')" by simp
  from c0 c1 c2 h3 c3 c4 show ?thesis by blast
qed

text \<open>The claim as stated fails at a row stored at the time 0.1 and looked up at the time
  600.1: the lookup is later than 600 seconds after the store, and the row is returned,
  since the float sum of 0.1 and 600 is 600.1.\<close>

theorem cache_serves_after_600_seconds:
  "double_0_1 + 600 < double_600_1
   \<and> fst (cache_get double_600_1 sample_url
             (cache_set double_0_1 sample_url sample_meta empty_state)) = Some sample_meta"
proof -
  have "double_0_1 + 600 < double_600_1"
    by (simp add: double_0_1_def double_600_1_def)
  moreover have "fst (cache_get double_600_1 sample_url
             (cache_set double_0_1 sample_url sample_meta empty_state)) = Some sample_meta"
    by (simp add: cache_get_def cache_set_def emit_def Let_def TTL_SECONDS_def float_add_0_1)
  ultimately show ?thesis by blast
qed

text \<open>
  What the body of the metadata endpoint holds: exactly the keys \<open>title\<close>, \<open>id\<close>, \<open>ext\<close>,
  \<open>width\<close>, \<open>height\<close>, \<open>duration\<close> and \<open>direct_url\<close>, with \<open>ext\<close> being \<open>mp4\<close> when the
  result has no \<open>ext\<close> key and the value of that key otherwise.
\<close>

theorem metadata_body_fields:
  "map fst (json_body (resolve r)) =
      [''title'', ''id'', ''ext'', ''width'', ''height'', ''duration'', ''direct_url'']
   \<and> (v_ext (first_entry r) = None \<longrightarrow> m_ext (resolve r) = Some ''mp4'')
   \<and> (v_ext (first_entry r) = Some e \<longrightarrow> m_ext (resolve r) = e)
   \<and> (map_of (json_body (resolve r)) ''ext'' = Some JNull \<longleftrightarrow> v_ext (first_entry r) = Some None)
   \<and> (cache s url = None \<and> ydl_meta lib (YDL_BASE\<lparr>o_skip_download := Some True\<rparr>) url = Inr r
      \<longrightarrow> fst (api_tiktok lib t_get t_set url s) = Inr (JSONResponse (json_body (resolve r))))"
proof -
  have keys: "map fst (json_body (resolve r)) =
      [''title'', ''id'', ''ext'', ''width'', ''height'', ''duration'', ''direct_url'']"
    by (simp add: json_body_def)
  have absent: "v_ext (first_entry r) = None \<longrightarrow> m_ext (resolve r) = Some ''mp4''"
    by (simp add: resolve_def Let_def)
  have present: "v_ext (first_entry r) = Some e \<longrightarrow> m_ext (resolve r) = e"
    by (simp add: resolve_def Let_def)
  have null: "map_of (json_body (resolve r)) ''ext'' = Some JNull \<longleftrightarrow> v_ext (first_entry r) = Some None"
    by (simp add: json_body_def resolve_def Let_def jstr_def split: option.splits)
  have endpoint: "cache s url = None \<and> ydl_meta lib (YDL_BASE\<lparr>o_skip_download := Some True\<rparr>) url = Inr r
      \<longrightarrow> fst (api_tiktok lib t_get t_set url s) = Inr (JSONResponse (json_body (resolve r)))"
    by (simp add: api_tiktok_def cache_get_def extract_info_def emit_def Let_def)
  from keys absent present null endpoint show ?thesis by blast
qed

theorem metadata_body_fields_witness:
  "map fst (json_body (resolve sample_extraction)) =
      [''title'', ''id'', ''ext'', ''width'', ''height'', ''duration'', ''direct_url'']
   \<and> m_ext (resolve bare_extraction) = Some ''mp4''
   \<and> m_ext (resolve sample_extraction) = Some ''mp4''
   \<and> map_of (json_body (resolve extraction_null_ext)) ''ext'' = Some JNull
   \<and> fst (api_tiktok lib_no_ffmpeg 2000 2001 sample_url empty_state) =
        Inr (JSONResponse (json_body (resolve sample_extraction)))"
proof -
  have h1: "v_ext (first_entry bare_extraction) = None"
    by (simp add: first_entry_def bare_extraction_def bare_video_def)
  have h2: "v_ext (first_entry sample_extraction) = Some (Some ''mp4'')"
    by (simp add: first_entry_def sample_extraction_def sample_video_def bare_video_def)
  have h3: "v_ext (first_entry extraction_null_ext) = Some None"
    by (simp add: first_entry_def extraction_null_ext_def video_null_ext_def bare_video_def)
  have h4: "cache empty_state sample_url = None
      \<and> ydl_meta lib_no_ffmpeg (YDL_BASE\<lparr>o_skip_download := Some True\<rparr>) sample_url =
          Inr sample_extraction"
    by (simp add: empty_state_def lib_no_ffmpeg_def)
  note a = metadata_body_fields [of sample_extraction "Some ''mp4''" empty_state sample_url
      lib_no_ffmpeg 2000 2001]
  note b = metadata_body_fields [of bare_extraction]
  note c = metadata_body_fields [of extraction_null_ext]
  from a have c1: "map fst (json_body (resolve sample_extraction)) =
      [''title'', ''id'', ''ext'', ''width'', ''height'', ''duration'', ''direct_url'']" by blast
  from b h1 have c2: "m_ext (resolve bare_extraction) = Some ''mp4''" by blast
  from a h2 have c3: "m_ext (resolve sample_extraction) = Some ''mp4''" by blast
  from c h3 have c4: "map_of (json_body (resolve extraction_null_ext)) ''ext'' = Some JNull" by blast
  from a h4 have c5: "fst (api_tiktok lib_no_ffmpeg 2000 2001 sample_url empty_state) =
        Inr (JSONResponse (json_body (resolve sample_extraction)))" by blast
  from c1 c2 c3 c4 c5 show ?thesis by blast
qed

text \<open>
  C6. The body is to have exactly the seven fields, of which \<open>ext\<close> alone is never null,
  \<open>mp4\<close> being its default. The code gives the default through \<open>info.get("ext", "mp4")\<close>,
  which covers the absent key only: at a result whose \<open>ext\<close> key holds \<open>None\<close> the \<open>ext\<close> of
  the body is null. Elsewhere the program guards a value that may be \<open>None\<close> with
  \<open>x or default\<close>.
\<close>

theorem metadata_ext_null:
  "v_ext video_null_ext = Some None
   \<and> m_ext (resolve extraction_null_ext) = None
   \<and> map_of (json_body (resolve extraction_null_ext)) ''ext'' = Some JNull"
  by (simp add: resolve_def first_entry_def extraction_null_ext_def video_null_ext_def
        bare_video_def json_body_def jstr_def Let_def)

text \<open>
  C7, as the code has it. A non-empty direct URL that comes from the list of formats is the
  URL of a descriptor of that list; whatever the search of the list assigns is the URL of
  one of its descriptors; and what the step over the descriptors with a URL assigns is
  non-empty. The step over the preferred descriptors can assign an absent or an empty URL.
\<close>

theorem selected_url_comes_from_a_descriptor:
  "(\<not> truthy (requested_url info) \<and> \<not> truthy (v_url info)
      \<and> select_direct info = Some u \<and> u \<noteq> []
    \<longrightarrow> (\<exists>fmts f. v_formats info = Some fmts \<and> f \<in> set fmts \<and> fmt_url f = Some u))
   \<and> (select_format fmts direct = Some u' \<and> select_format fmts direct \<noteq> direct
    \<longrightarrow> (\<exists>f \<in> set fmts. fmt_url f = Some u'))
   \<and> (filter is_pref fmts = [] \<and> select_format fmts direct \<noteq> direct
    \<longrightarrow> truthy (select_format fmts direct))"
proof -
  have a: "\<not> truthy (requested_url info) \<and> \<not> truthy (v_url info)
      \<and> select_direct info = Some u \<and> u \<noteq> []
    \<longrightarrow> (\<exists>fmts f. v_formats info = Some fmts \<and> f \<in> set fmts \<and> fmt_url f = Some u)"
  proof
    assume h: "\<not> truthy (requested_url info) \<and> \<not> truthy (v_url info)
      \<and> select_direct info = Some u \<and> u \<noteq> []"
    then have t: "truthy (select_direct info)" by (simp add: truthy_def)
    show "\<exists>fmts f. v_formats info = Some fmts \<and> f \<in> set fmts \<and> fmt_url f = Some u"
    proof (cases "v_formats info")
      case None
      with h have "select_direct info = requested_url info"
        by (simp add: select_direct_def Let_def)
      with t have "truthy (requested_url info)" by simp
      with h show ?thesis by blast
    next
      case (Some fs)
      from h have nr: "\<not> truthy (requested_url info)" and nu: "\<not> truthy (v_url info)"
        by blast+
      have sd: "select_direct info =
          (if fs = [] then requested_url info else select_format fs (requested_url info))"
        by (rule select_direct_formats [OF Some nr nu])
      have ne: "fs \<noteq> []"
      proof
        assume "fs = []"
        with sd have "select_direct info = requested_url info" by simp
        with t nr show False by simp
      qed
      with sd have eq: "select_direct info = select_format fs (requested_url info)" by simp
      with h have sf: "select_format fs (requested_url info) = Some u" by simp
      from eq t nr have "select_format fs (requested_url info) \<noteq> requested_url info" by auto
      with sf obtain f where "f \<in> set fs" "fmt_url f = Some u"
        using select_format_source by blast
      with Some show ?thesis by blast
    qed
  qed
  have b: "select_format fmts direct = Some u' \<and> select_format fmts direct \<noteq> direct
    \<longrightarrow> (\<exists>f \<in> set fmts. fmt_url f = Some u')"
    using select_format_source by blast
  have c: "filter is_pref fmts = [] \<and> select_format fmts direct \<noteq> direct
    \<longrightarrow> truthy (select_format fmts direct)"
  proof
    assume h: "filter is_pref fmts = [] \<and> select_format fmts direct \<noteq> direct"
    let ?us = "filter (\<lambda>f. truthy (fmt_url f)) fmts"
    from h have ne: "?us \<noteq> []" using select_format_none by blast
    then have "hd (sort_reverse sort_tuple ?us) \<in> set ?us" by (rule hd_sort_reverse_in_set)
    then have "truthy (fmt_url (hd (sort_reverse sort_tuple ?us)))" by simp
    moreover have "select_format fmts direct = fmt_url (hd (sort_reverse sort_tuple ?us))"
      using h ne by (simp add: select_format_def Let_def)
    ultimately show "truthy (select_format fmts direct)" by simp
  qed
  from a b c show ?thesis by blast
qed

theorem selected_url_comes_from_a_descriptor_witness:
  "select_direct video_fallback = Some ''https://cdn.example/2160.mp4''
   \<and> (\<exists>fmts f. v_formats video_fallback = Some fmts \<and> f \<in> set fmts
         \<and> fmt_url f = Some ''https://cdn.example/2160.mp4'')
   \<and> (\<exists>f \<in> set [fmt_webm, fmt_hevc]. fmt_url f = Some ''https://cdn.example/2160.mp4'')
   \<and> truthy (select_format [fmt_webm, fmt_hevc] None)"
proof -
  have sf: "select_format [fmt_webm, fmt_hevc] None = Some ''https://cdn.example/2160.mp4''"
    by (simp add: select_format_def sort_reverse_def Let_def example_formats selection_eval)
  have sd: "select_direct video_fallback = Some ''https://cdn.example/2160.mp4''"
    using sf by (simp add: select_direct_def Let_def example_videos selection_eval)
  have h1: "\<not> truthy (requested_url video_fallback) \<and> \<not> truthy (v_url video_fallback)
      \<and> select_direct video_fallback = Some ''https://cdn.example/2160.mp4''
      \<and> ''https://cdn.example/2160.mp4'' \<noteq> []"
    using sd by (simp add: example_videos selection_eval)
  have h2: "select_format [fmt_webm, fmt_hevc] None = Some ''https://cdn.example/2160.mp4''
      \<and> select_format [fmt_webm, fmt_hevc] None \<noteq> None"
    using sf by simp
  have h3: "filter is_pref [fmt_webm, fmt_hevc] = [] \<and> select_format [fmt_webm, fmt_hevc] None \<noteq> None"
    using sf by (simp add: example_formats selection_eval)
  from selected_url_comes_from_a_descriptor
    [of video_fallback "''https://cdn.example/2160.mp4''" "[fmt_webm, fmt_hevc]" None
        "''https://cdn.example/2160.mp4''"] h1 h2 h3 sd
  show ?thesis by blast
qed

text \<open>The claim as stated fails at a preferred descriptor whose URL is the empty string:
  the direct URL is then that empty string, which is not null.\<close>

theorem select_direct_empty_url:
  "v_requested_formats video_pref_empty_url = None \<and> v_url video_pref_empty_url = None
   \<and> v_formats video_pref_empty_url = Some [fmt_empty_url]
   \<and> fmt_url fmt_empty_url = Some []
   \<and> select_direct video_pref_empty_url = Some []"
  by (simp add: select_direct_def select_format_def sort_reverse_def Let_def
        example_videos example_formats selection_eval)

text \<open>
  C8. When nothing comes from the requested formats or the top-level URL, and the first
  descriptor of maximal (height, fps, tbr) among the preferred ones has no URL, the direct
  URL is null, whatever URLs the other descriptors have.
\<close>

theorem preferred_without_url_gives_null:
  "\<not> truthy (requested_url info) \<and> \<not> truthy (v_url info) \<and> v_formats info = Some fmts
     \<and> filter is_pref fmts = ys @ m # zs
     \<and> (\<forall>y \<in> set ys. sort_tuple y < sort_tuple m)
     \<and> (\<forall>z \<in> set zs. sort_tuple z \<le> sort_tuple m)
     \<and> fmt_url m = None
   \<longrightarrow> select_direct info = None"
proof
  assume a: "\<not> truthy (requested_url info) \<and> \<not> truthy (v_url info) \<and> v_formats info = Some fmts
     \<and> filter is_pref fmts = ys @ m # zs
     \<and> (\<forall>y \<in> set ys. sort_tuple y < sort_tuple m)
     \<and> (\<forall>z \<in> set zs. sort_tuple z \<le> sort_tuple m)
     \<and> fmt_url m = None"
  then have ne: "fmts \<noteq> []" by auto
  have "select_format fmts (requested_url info) = fmt_url m"
    using a by (intro select_format_pref [of fmts ys m zs]) auto
  with a ne show "select_direct info = None" by (simp add: select_direct_formats)
qed

theorem preferred_without_url_gives_null_witness:
  "select_direct video_pref_no_url = None
   \<and> fmt_url fmt_480 = Some ''https://cdn.example/480.mp4''
   \<and> fmt_url fmt_hevc = Some ''https://cdn.example/2160.mp4''"
proof -
  have h: "\<not> truthy (requested_url video_pref_no_url) \<and> \<not> truthy (v_url video_pref_no_url)
     \<and> v_formats video_pref_no_url = Some [fmt_480, fmt_no_url, fmt_hevc]
     \<and> filter is_pref [fmt_480, fmt_no_url, fmt_hevc] = [fmt_480] @ fmt_no_url # []
     \<and> (\<forall>y \<in> set [fmt_480]. sort_tuple y < sort_tuple fmt_no_url)
     \<and> (\<forall>z \<in> set []. sort_tuple z \<le> sort_tuple fmt_no_url)
     \<and> fmt_url fmt_no_url = None"
    by (simp add: example_videos example_formats selection_eval)
  have "select_direct video_pref_no_url = None"
    using preferred_without_url_gives_null
      [of video_pref_no_url "[fmt_480, fmt_no_url, fmt_hevc]" "[fmt_480]" fmt_no_url "[]"] h
    by blast
  then show ?thesis by (simp add: example_formats)
qed

text \<open>
  C9. A lookup that returns a value leaves the whole cache as it was, the row's expiry
  included, also when the endpoint makes it; so a row read before its expiry is still gone
  at any time after it.
\<close>

theorem cache_get_no_refresh:
  "(fst (cache_get now url s) = Some v \<longrightarrow>
        cache (snd (cache_get now url s)) = cache s
        \<and> cache (snd (api_tiktok lib now t_set url s)) = cache s)
   \<and> (cache s url = Some row \<and> now \<le> row_exp row \<and> row_exp row < later \<longrightarrow>
        fst (cache_get later url (snd (cache_get now url s))) = None)"
proof -
  have hit: "fst (cache_get now url s) = Some v \<longrightarrow>
        cache (snd (cache_get now url s)) = cache s
        \<and> cache (snd (api_tiktok lib now t_set url s)) = cache s"
  proof
    assume "fst (cache_get now url s) = Some v"
    then obtain r where r: "cache s url = Some r" "row_val r = v" "\<not> row_exp r < now"
      by (auto simp: cache_get_Some_iff)
    show "cache (snd (cache_get now url s)) = cache s
        \<and> cache (snd (api_tiktok lib now t_set url s)) = cache s"
      using cache_get_hit [OF r(1) r(3)] by (simp add: api_tiktok_def emit_def)
  qed
  have again: "cache s url = Some row \<and> now \<le> row_exp row \<and> row_exp row < later \<longrightarrow>
        fst (cache_get later url (snd (cache_get now url s))) = None"
  proof
    assume a: "cache s url = Some row \<and> now \<le> row_exp row \<and> row_exp row < later"
    then have first: "cache_get now url s = (Some (row_val row), emit (CacheRead url) s)"
      using cache_get_hit [of s url row now] by auto
    have "cache (emit (CacheRead url) s) url = Some row" using a by (simp add: emit_def)
    then show "fst (cache_get later url (snd (cache_get now url s))) = None"
      using a first cache_get_expired [of "emit (CacheRead url) s" url row later] by simp
  qed
  from hit again show ?thesis by blast
qed

theorem cache_get_no_refresh_witness:
  "fst (cache_get 900 sample_url cached_state) = Some sample_meta
   \<and> cache (snd (cache_get 900 sample_url cached_state)) = cache cached_state
   \<and> cache (snd (api_tiktok lib_down 900 901 sample_url cached_state)) = cache cached_state
   \<and> fst (cache_get 1001 sample_url (snd (cache_get 900 sample_url cached_state))) = None"
proof -
  have h1: "fst (cache_get 900 sample_url cached_state) = Some sample_meta"
    by (simp add: cache_get_def cached_state_def empty_state_def emit_def Let_def)
  have h2: "cache cached_state sample_url = Some \<lparr>row_val = sample_meta, row_exp = 1000\<rparr>
      \<and> 900 \<le> row_exp \<lparr>row_val = sample_meta, row_exp = 1000\<rparr>
      \<and> row_exp \<lparr>row_val = sample_meta, row_exp = 1000\<rparr> < 1001"
    by (simp add: cached_state_def empty_state_def)
  note t = cache_get_no_refresh [of 900 sample_url cached_state sample_meta lib_down 901
      "\<lparr>row_val = sample_meta, row_exp = 1000\<rparr>" 1001]
  from t h1 have a: "cache (snd (cache_get 900 sample_url cached_state)) = cache cached_state
     \<and> cache (snd (api_tiktok lib_down 900 901 sample_url cached_state)) = cache cached_state"
    by blast
  from t h2 have b: "fst (cache_get 1001 sample_url (snd (cache_get 900 sample_url cached_state))) = None"
    by blast
  from h1 a b show ?thesis by blast
qed

text \<open>
  C10. A download request (the endpoint and the background task of its response) leaves
  the cache as it was. It begins with a call of the library in metadata mode, and no read
  or write of the cache follows; the response and the rest of the state are the same
  whatever the cache holds.
\<close>

theorem download_leaves_cache:
  "cache (snd (download_request lib tmpdir url s)) = cache s
   \<and> (\<exists>evs. trace (snd (download_request lib tmpdir url s)) =
               trace s @ Extract (YDL_BASE\<lparr>o_skip_download := Some True\<rparr>) url False # evs
             \<and> (\<forall>e \<in> set evs. \<not> is_cache_event e))
   \<and> download_request lib tmpdir url (s\<lparr>cache := c\<rparr>) =
        (fst (download_request lib tmpdir url s), (snd (download_request lib tmpdir url s))\<lparr>cache := c\<rparr>)"
proof -
  let ?opts = "YDL_BASE\<lparr>o_skip_download := Some True\<rparr>"
  let ?s1 = "emit (Extract ?opts url False) s"
  have ei: "extract_info lib url s =
      (case ydl_meta lib ?opts url of Inl e \<Rightarrow> Inl e | Inr r \<Rightarrow> Inr (resolve r), ?s1)"
    by (rule extract_info_eq)
  have s1: "cache ?s1 = cache s" "trace ?s1 = trace s @ [Extract ?opts url False]"
    by (simp_all add: emit_def)
  have api: "cache (snd (api_tiktok_download lib tmpdir url s)) = cache s
     \<and> (\<exists>evs. trace (snd (api_tiktok_download lib tmpdir url s)) =
               trace s @ Extract ?opts url False # evs
             \<and> (\<forall>e \<in> set evs. \<not> is_cache_event e))"
  proof (cases "ydl_meta lib ?opts url")
    case (Inl e)
    with ei s1 show ?thesis by (simp add: api_tiktok_download_def)
  next
    case (Inr r)
    let ?hint = "if truthy (m_title (resolve r)) then m_title (resolve r) else m_id (resolve r)"
    let ?m = "yt_dlp_download_to_temp lib tmpdir url ?hint ?s1"
    have snd_eq: "snd (api_tiktok_download lib tmpdir url s) = snd ?m"
      using ei Inr by (simp add: api_tiktok_download_def split: prod.splits sum.splits)
    obtain evs where evs: "trace (snd ?m) = trace ?s1 @ evs" "\<forall>e \<in> set evs. \<not> is_cache_event e"
      using materializer_trace [of lib tmpdir url ?hint ?s1] by blast
    have "cache (snd ?m) = cache s" using materializer_cache [of lib tmpdir url ?hint ?s1] s1 by simp
    moreover have "trace (snd ?m) = trace s @ Extract ?opts url False # evs"
      using evs s1 by simp
    ultimately show ?thesis using snd_eq evs(2) by auto
  qed
  have req_snd: "snd (download_request lib tmpdir url s) = snd (api_tiktok_download lib tmpdir url s)
      \<or> (\<exists>path. snd (download_request lib tmpdir url s) =
             cleanup path (snd (api_tiktok_download lib tmpdir url s)))"
    by (auto simp: download_request_def split: prod.splits sum.splits response.splits)
  have c: "cache (snd (download_request lib tmpdir url s)) = cache s"
    using req_snd api cleanup_cache by auto
  have t: "\<exists>evs. trace (snd (download_request lib tmpdir url s)) =
               trace s @ Extract ?opts url False # evs
             \<and> (\<forall>e \<in> set evs. \<not> is_cache_event e)"
  proof -
    from api obtain evs where evs:
      "trace (snd (api_tiktok_download lib tmpdir url s)) = trace s @ Extract ?opts url False # evs"
      "\<forall>e \<in> set evs. \<not> is_cache_event e" by blast
    from req_snd show ?thesis
    proof
      assume "snd (download_request lib tmpdir url s) = snd (api_tiktok_download lib tmpdir url s)"
      with evs show ?thesis by auto
    next
      assume "\<exists>path. snd (download_request lib tmpdir url s) =
             cleanup path (snd (api_tiktok_download lib tmpdir url s))"
      then obtain path where p: "snd (download_request lib tmpdir url s) =
             cleanup path (snd (api_tiktok_download lib tmpdir url s))" by blast
      obtain evs2 where evs2: "trace (cleanup path (snd (api_tiktok_download lib tmpdir url s))) =
             trace (snd (api_tiktok_download lib tmpdir url s)) @ evs2"
          "\<forall>e \<in> set evs2. \<not> is_cache_event e"
        using cleanup_trace by blast
      have "trace (snd (download_request lib tmpdir url s)) =
              trace s @ Extract ?opts url False # (evs @ evs2)"
        using p evs evs2 by simp
      moreover have "\<forall>e \<in> set (evs @ evs2). \<not> is_cache_event e" using evs evs2 by auto
      ultimately show ?thesis by blast
    qed
  qed
  have f: "download_request lib tmpdir url (s\<lparr>cache := c\<rparr>) =
        (fst (download_request lib tmpdir url s), (snd (download_request lib tmpdir url s))\<lparr>cache := c\<rparr>)"
    by (simp add: download_request_def endpoint_frame cleanup_frame
          split: prod.splits sum.splits response.splits)
  from c t f show ?thesis by blast
qed

theorem download_leaves_cache_witness:
  "fst (download_request lib_no_ffmpeg sample_tmpdir sample_url cached_state) =
      Inr (FileResponse ''/tmp/ttdl_k3x9/7.mp4'' ''video/mp4'' ''My_ Video_ _Test_.mp4'')
   \<and> cache (snd (download_request lib_no_ffmpeg sample_tmpdir sample_url cached_state)) =
        cache cached_state
   \<and> cache cached_state sample_url = Some \<lparr>row_val = sample_meta, row_exp = 1000\<rparr>"
proof -
  have cs: "cached_state = empty_state\<lparr>cache := [sample_url \<mapsto> \<lparr>row_val = sample_meta, row_exp = 1000\<rparr>]\<rparr>"
    by (simp add: cached_state_def)
  note t = download_leaves_cache [of lib_no_ffmpeg sample_tmpdir sample_url empty_state
      "[sample_url \<mapsto> \<lparr>row_val = sample_meta, row_exp = 1000\<rparr>]"]
  note u = download_leaves_cache [of lib_no_ffmpeg sample_tmpdir sample_url cached_state]
  let ?s1 = "emit (Extract (YDL_BASE\<lparr>o_skip_download := Some True\<rparr>) sample_url False) empty_state"
  have "fsys ?s1 = \<lparr>files = [], dirs = [''/tmp'']\<rparr>"
    by (simp add: emit_def empty_state_def)
  then have m: "fst (yt_dlp_download_to_temp lib_no_ffmpeg sample_tmpdir sample_url
                  (Some ''My: Video? <Test>'') ?s1) =
      Inr (''/tmp/ttdl_k3x9/7.mp4'', ''My_ Video_ _Test_.mp4'')"
    by (simp add: run_no_ffmpeg_fst safe_filename_defs)
  have x: "extract_info lib_no_ffmpeg sample_url empty_state = (Inr sample_meta, ?s1)"
    by (simp add: extract_info_eq lib_no_ffmpeg_def sample_meta_def)
  have e: "fst (download_request lib_no_ffmpeg sample_tmpdir sample_url empty_state) =
      Inr (FileResponse ''/tmp/ttdl_k3x9/7.mp4'' ''video/mp4'' ''My_ Video_ _Test_.mp4'')"
    using m sample_title
    by (simp add: download_request_fst api_tiktok_download_def x truthy_def split_beta)
  from t e cs have "fst (download_request lib_no_ffmpeg sample_tmpdir sample_url cached_state) =
      Inr (FileResponse ''/tmp/ttdl_k3x9/7.mp4'' ''video/mp4'' ''My_ Video_ _Test_.mp4'')"
    by simp
  moreover from u have "cache (snd (download_request lib_no_ffmpeg sample_tmpdir sample_url cached_state)) =
        cache cached_state" by blast
  moreover have "cache cached_state sample_url = Some \<lparr>row_val = sample_meta, row_exp = 1000\<rparr>"
    by (simp add: cached_state_def empty_state_def)
  ultimately show ?thesis by blast
qed

end
